theory Spec2Isabelle
  imports Main "HOL-Library.Word"
begin

section \<open>The WavPack decoder plugin: stream adapter and session drivers\<close>

text \<open>
  The development embeds \<^verbatim>\<open>WavpackDecoderPlugin.cxx\<close>: the callbacks that present
  an \<^verbatim>\<open>InputStream\<close> to libwavpack (\<^verbatim>\<open>WavpackInput::ReadBytes\<close>,
  \<^verbatim>\<open>wavpack_input_get_pos\<close>, \<^verbatim>\<open>wavpack_input_set_pos_abs\<close>,
  \<^verbatim>\<open>wavpack_input_set_pos_rel\<close>, \<^verbatim>\<open>wavpack_input_push_back_byte\<close>,
  \<^verbatim>\<open>wavpack_input_get_length\<close>, \<^verbatim>\<open>wavpack_input_can_seek\<close>) and the drivers
  \<^verbatim>\<open>wavpack_decode\<close>, \<^verbatim>\<open>wavpack_streamdecode\<close>, \<^verbatim>\<open>wavpack_filedecode\<close> and
  \<^verbatim>\<open>wavpack_scan_file\<close>.

  Machine integers are words: \<^verbatim>\<open>int\<close> and \<^verbatim>\<open>int32_t\<close> are \<^typ>\<open>32 word\<close> read
  with \<^const>\<open>sint\<close>, \<^verbatim>\<open>uint32_t\<close> is \<^typ>\<open>32 word\<close> read with \<^const>\<open>unat\<close>,
  \<^verbatim>\<open>size_t\<close> is \<^typ>\<open>64 word\<close> (an LP64 platform), \<^verbatim>\<open>uint8_t\<close> is \<^typ>\<open>8 word\<close>.
\<close>

subsection \<open>Exceptions\<close>

text \<open>
  The plugin catches \<^verbatim>\<open>const std::runtime_error &\<close> and nothing else. An exception is
  therefore either a \<^verbatim>\<open>std::runtime_error\<close> (or a class derived from it, such as
  \<^verbatim>\<open>FormatRuntimeError\<close>'s result), carrying its message, or an exception of any
  other class (\<^verbatim>\<open>std::bad_alloc\<close>, \<^verbatim>\<open>std::logic_error\<close>, ...).
\<close>

datatype exception = RuntimeError string | OtherException

subsection \<open>The input stream\<close>

text \<open>
  Modelled from the spec: \<^verbatim>\<open>offset_type\<close> is declared in \<^verbatim>\<open>input/Offset.hxx\<close>, which
  is not among the sources; the source reports 64-bit offsets, so it is \<^typ>\<open>64 word\<close>.
\<close>

type_synonym offset_type = "64 word"

text \<open>
  \<^verbatim>\<open>InputStream\<close> is the host's class (\<^verbatim>\<open>input/InputStream.hxx\<close>). The plugin reads
  five things from it, which are the fields here: \<^verbatim>\<open>GetURI()\<close>, \<^verbatim>\<open>GetOffset()\<close>,
  \<^verbatim>\<open>KnownSize()\<close> with \<^verbatim>\<open>GetSize()\<close> (\<open>None\<close> when the size is not known), and
  \<^verbatim>\<open>IsSeekable()\<close>. The plugin calls \<^verbatim>\<open>GetSize()\<close> only after \<^verbatim>\<open>KnownSize()\<close>
  has returned true. \<open>content\<close> holds the bytes of the resource, for the host
  operations that the theorems instantiate.
\<close>

record InputStream =
  uri :: "string option"
  offset :: offset_type
  size :: "offset_type option"
  seekable :: bool
  content :: "8 word list"

definition GetOffset :: "InputStream \<Rightarrow> offset_type" where
  "GetOffset s = offset s"

definition KnownSize :: "InputStream \<Rightarrow> bool" where
  "KnownSize s = (size s \<noteq> None)"

definition GetSize :: "InputStream \<Rightarrow> offset_type" where
  "GetSize s = (case size s of Some n \<Rightarrow> n | None \<Rightarrow> - 1)"

definition IsSeekable :: "InputStream \<Rightarrow> bool" where
  "IsSeekable s = seekable s"

text \<open>
  Two host operations act on the stream and are parameters of the callbacks that use
  them. \<^verbatim>\<open>decoder_read(client, is, buf, length)\<close> blocks until it has some bytes and
  returns how many it stored at \<^verbatim>\<open>buf\<close>; it returns 0 at the end of the stream, on an
  error and when the client has a pending command. Here it returns the bytes stored and
  the stream afterwards. \<^verbatim>\<open>is.LockSeek(offset)\<close> returns nothing and throws on failure;
  here it returns the stream afterwards and the exception thrown, if any.
\<close>

type_synonym reader = "InputStream \<Rightarrow> 64 word \<Rightarrow> 8 word list \<times> InputStream"

type_synonym seeker = "InputStream \<Rightarrow> offset_type \<Rightarrow> InputStream \<times> exception option"

subsection \<open>The adapter\<close>

text \<open>
  \<^verbatim>\<open>struct WavpackInput\<close>: the stream and the pushed-back byte. The \<^verbatim>\<open>client\<close>
  pointer is only ever handed to \<^verbatim>\<open>decoder_read\<close>, so it is part of the \<^typ>\<open>reader\<close>
  parameter. The constructor sets \<^verbatim>\<open>last_byte(EOF)\<close>; \<^verbatim>\<open>EOF\<close> is the macro of
  \<^verbatim>\<open>stdio.h\<close>, the \<^verbatim>\<open>int\<close> \<open>-1\<close>.
\<close>

definition EOF :: "32 word" where
  "EOF = - 1"

record WavpackInput =
  istream :: InputStream
  last_byte :: "32 word"

definition new_WavpackInput :: "InputStream \<Rightarrow> WavpackInput" where
  "new_WavpackInput s = \<lparr>istream = s, last_byte = EOF\<rparr>"

text \<open>
  The \<^verbatim>\<open>while (bcount > 0)\<close> loop of \<^verbatim>\<open>ReadBytes\<close>. \<open>buf\<close> is what has been stored
  at \<^verbatim>\<open>data\<close> so far, in order: every store is at \<^verbatim>\<open>buf\<close>, which then moves past it.
  \<^verbatim>\<open>i += nbytes\<close> adds a \<^verbatim>\<open>size_t\<close> to an \<^verbatim>\<open>int32_t\<close> and keeps the low 32 bits;
  \<^verbatim>\<open>bcount -= nbytes\<close> is unsigned and wraps. The loop has no bound of its own: it ends
  when \<^verbatim>\<open>bcount\<close> reaches 0 or a read returns 0, so not returning is \<open>None\<close>.
\<close>

partial_function (option) ReadBytes_loop ::
  "reader \<Rightarrow> InputStream \<Rightarrow> 8 word list \<Rightarrow> 64 word \<Rightarrow> 32 word
     \<Rightarrow> (InputStream \<times> 8 word list \<times> 32 word) option"
where
  "ReadBytes_loop decoder_read s buf bcount i =
     (if 0 < bcount then
        (case decoder_read s bcount of
           (bytes, s') \<Rightarrow>
             (if (word_of_nat (length bytes) :: 64 word) = 0 then Some (s', buf, i)
              else ReadBytes_loop decoder_read s' (buf @ bytes)
                     (bcount - word_of_nat (length bytes))
                     (i + word_of_nat (length bytes))))
      else Some (s, buf, i))"

text \<open>
  \<^verbatim>\<open>WavpackInput::ReadBytes(void *data, size_t bcount)\<close>: the adapter afterwards, the
  bytes stored at \<^verbatim>\<open>data\<close>, and the returned \<^verbatim>\<open>int32_t\<close>. The pushed-back byte is
  stored first whatever \<^verbatim>\<open>bcount\<close> is, and \<^verbatim>\<open>--bcount\<close> is unsigned.
\<close>

definition ReadBytes ::
  "reader \<Rightarrow> WavpackInput \<Rightarrow> 64 word \<Rightarrow> (WavpackInput \<times> 8 word list \<times> 32 word) option"
where
  "ReadBytes decoder_read wpi bcount =
     (if last_byte wpi \<noteq> EOF then
        (case ReadBytes_loop decoder_read (istream wpi) [ucast (last_byte wpi)] (bcount - 1) 1 of
           None \<Rightarrow> None
         | Some (s', buf, i) \<Rightarrow> Some (wpi\<lparr>istream := s', last_byte := EOF\<rparr>, buf, i))
      else
        (case ReadBytes_loop decoder_read (istream wpi) [] bcount 0 of
           None \<Rightarrow> None
         | Some (s', buf, i) \<Rightarrow> Some (wpi\<lparr>istream := s'\<rparr>, buf, i)))"

text \<open>
  \<^verbatim>\<open>wavpack_input_read_bytes(void *id, void *data, int32_t bcount)\<close>, the callback
  libwavpack calls: the \<^verbatim>\<open>int32_t\<close> count is converted to \<^verbatim>\<open>size_t\<close>.
\<close>

definition wavpack_input_read_bytes ::
  "reader \<Rightarrow> WavpackInput \<Rightarrow> 32 word \<Rightarrow> (WavpackInput \<times> 8 word list \<times> 32 word) option"
where
  "wavpack_input_read_bytes decoder_read wpi bcount = ReadBytes decoder_read wpi (scast bcount)"

text \<open>\<^verbatim>\<open>wavpack_input_get_pos\<close> returns \<^verbatim>\<open>uint32_t\<close>: the 64-bit offset is cut to 32 bits.\<close>

definition wavpack_input_get_pos :: "WavpackInput \<Rightarrow> 32 word" where
  "wavpack_input_get_pos wpi = ucast (GetOffset (istream wpi))"

text \<open>
  The seek callbacks return the adapter afterwards with the \<^verbatim>\<open>int\<close> result, or
  \<open>Inl e\<close> when the exception \<open>e\<close> leaves the callback. Both end with the same block,
  \<^verbatim>\<open>try { wpi.is.LockSeek(offset); return 0; } catch (const std::runtime_error &) { return -1; }\<close>,
  which is \<open>try_LockSeek\<close>.
\<close>

definition try_LockSeek ::
  "seeker \<Rightarrow> WavpackInput \<Rightarrow> offset_type \<Rightarrow> exception + WavpackInput \<times> 32 word"
where
  "try_LockSeek LockSeek wpi pos =
     (case LockSeek (istream wpi) pos of
        (s', None) \<Rightarrow> Inr (wpi\<lparr>istream := s'\<rparr>, 0)
      | (s', Some (RuntimeError m)) \<Rightarrow> Inr (wpi\<lparr>istream := s'\<rparr>, - 1)
      | (s', Some OtherException) \<Rightarrow> Inl OtherException)"

text \<open>\<^verbatim>\<open>wavpack_input_set_pos_abs(void *id, uint32_t pos)\<close>.\<close>

definition wavpack_input_set_pos_abs ::
  "seeker \<Rightarrow> WavpackInput \<Rightarrow> 32 word \<Rightarrow> exception + WavpackInput \<times> 32 word"
where
  "wavpack_input_set_pos_abs LockSeek wpi pos = try_LockSeek LockSeek wpi (ucast pos)"

text \<open>The \<^verbatim>\<open>whence\<close> values of \<^verbatim>\<open>stdio.h\<close>; the callback only tells them apart.\<close>

definition SEEK_SET :: "32 word" where "SEEK_SET = 0"
definition SEEK_CUR :: "32 word" where "SEEK_CUR = 1"
definition SEEK_END :: "32 word" where "SEEK_END = 2"

text \<open>
  \<^verbatim>\<open>wavpack_input_set_pos_rel(void *id, int32_t delta, int mode)\<close> in its two parts.
  The \<^verbatim>\<open>switch\<close> computes the target from \<^verbatim>\<open>offset_type offset = delta\<close> (the
  \<^verbatim>\<open>int32_t\<close> is sign-extended and the sums wrap at 64 bits); \<open>None\<close> is its
  \<^verbatim>\<open>return -1\<close>, for \<^verbatim>\<open>SEEK_END\<close> on a stream of unknown size and for any other
  mode. Then comes the same \<^verbatim>\<open>try\<close> block as above.
\<close>

definition set_pos_rel_offset :: "InputStream \<Rightarrow> 32 word \<Rightarrow> 32 word \<Rightarrow> offset_type option" where
  "set_pos_rel_offset s delta mode =
     (if mode = SEEK_SET then Some (scast delta)
      else if mode = SEEK_CUR then Some (scast delta + GetOffset s)
      else if mode = SEEK_END then
        (if \<not> KnownSize s then None else Some (scast delta + GetSize s))
      else None)"

definition wavpack_input_set_pos_rel ::
  "seeker \<Rightarrow> WavpackInput \<Rightarrow> 32 word \<Rightarrow> 32 word \<Rightarrow> exception + WavpackInput \<times> 32 word"
where
  "wavpack_input_set_pos_rel LockSeek wpi delta mode =
     (case set_pos_rel_offset (istream wpi) delta mode of
        None \<Rightarrow> Inr (wpi, - 1)
      | Some offset' \<Rightarrow> try_LockSeek LockSeek wpi offset')"

text \<open>\<^verbatim>\<open>wavpack_input_push_back_byte(void *id, int c)\<close>: the adapter afterwards and the result.\<close>

definition wavpack_input_push_back_byte :: "WavpackInput \<Rightarrow> 32 word \<Rightarrow> WavpackInput \<times> 32 word" where
  "wavpack_input_push_back_byte wpi c =
     (if last_byte wpi = EOF then (wpi\<lparr>last_byte := c\<rparr>, c) else (wpi, EOF))"

definition wavpack_input_get_length :: "WavpackInput \<Rightarrow> 32 word" where
  "wavpack_input_get_length wpi =
     (if \<not> KnownSize (istream wpi) then 0 else ucast (GetSize (istream wpi)))"

definition wavpack_input_can_seek :: "WavpackInput \<Rightarrow> bool" where
  "wavpack_input_can_seek wpi = IsSeekable (istream wpi)"

subsection \<open>Host operations for the examples\<close>

text \<open>
  A stream held in memory. \<open>mem_read chunk\<close> hands over at most \<open>chunk\<close> bytes a call,
  and never more than asked for; \<open>mem_seek\<close> moves to any offset within the resource and
  throws a \<^verbatim>\<open>std::runtime_error\<close> otherwise; \<open>bad_seek\<close> always throws an exception that
  is no \<^verbatim>\<open>std::runtime_error\<close>.
\<close>

definition mem_stream :: "8 word list \<Rightarrow> InputStream" where
  "mem_stream bs =
     \<lparr>uri = None, offset = 0, size = Some (word_of_nat (length bs)), seekable = True,
      content = bs\<rparr>"

definition mem_read :: "nat \<Rightarrow> reader" where
  "mem_read chunk s n =
     (let bytes = take (min chunk (unat n)) (drop (unat (offset s)) (content s))
      in (bytes, s\<lparr>offset := offset s + word_of_nat (length bytes)\<rparr>))"

definition mem_seek :: seeker where
  "mem_seek s pos =
     (if unat pos \<le> length (content s) then (s\<lparr>offset := pos\<rparr>, None)
      else (s, Some (RuntimeError ''seek failed'')))"

definition bad_seek :: seeker where
  "bad_seek s pos = (s, Some OtherException)"

subsection \<open>The host session and the decoding library\<close>

text \<open>
  The drivers talk to two collaborators whose code is outside the plugin: libwavpack
  (\<^verbatim>\<open>WavpackOpenFileInput\<close>, \<^verbatim>\<open>WavpackUnpackSamples\<close>, ...) and the host's
  \<^verbatim>\<open>DecoderClient\<close> (\<^verbatim>\<open>Ready\<close>, \<^verbatim>\<open>GetCommand\<close>, \<^verbatim>\<open>SubmitData\<close>, \<^verbatim>\<open>OpenUri\<close>, ...)
  with \<^verbatim>\<open>CheckAudioFormat\<close>. A \<open>Session\<close> holds what they answer, and a trace of the
  calls the drivers make, in order. Only the drivers' control flow is followed: the
  sample values in \<^verbatim>\<open>chunk\<close>, and with them \<^verbatim>\<open>format_samples\<close>, which rewrites the
  chunk in place, are left out.
\<close>

datatype DecoderCommand = NONE | START | STOP | SEEK

datatype SampleFormat = UNDEFINED | S8 | S16 | S24_P32 | S32 | FLOAT | DSD

text \<open>\<^verbatim>\<open>AudioFormat\<close> as \<^verbatim>\<open>CheckAudioFormat\<close> returns it, with the value of its \<^verbatim>\<open>GetFrameSize()\<close>.\<close>

record AudioFormat =
  af_sample_rate :: nat
  af_format :: SampleFormat
  af_channels :: nat
  af_frame_size :: "32 word"

text \<open>
  \<^verbatim>\<open>SignedSongTime\<close> and \<^verbatim>\<open>SongTime\<close> (\<^verbatim>\<open>Chrono.hxx\<close>) count milliseconds in 32 bits,
  the first signed, the second unsigned, and convert into each other by keeping the bits.
  \<^verbatim>\<open>SignedSongTime::Negative()\<close> is \<open>-1\<close> and \<^verbatim>\<open>IsNegative()\<close> reads the sign.
\<close>

type_synonym SignedSongTime = "32 word"

definition Negative :: SignedSongTime where
  "Negative = - 1"

definition IsNegative :: "SignedSongTime \<Rightarrow> bool" where
  "IsNegative t = (sint t < 0)"

text \<open>
  The \<^verbatim>\<open>OPEN_...\<close> bits of \<^verbatim>\<open>wavpack.h\<close>; a flags word is the set of its bits and
  \<^verbatim>\<open>|=\<close> is union. \<^verbatim>\<open>OPEN_DSD_FLAG\<close> depends on the build: libwavpack before
  version 5 (\<^verbatim>\<open>OPEN_DSD_AS_PCM\<close> undefined), version 5 without \<^verbatim>\<open>ENABLE_DSD\<close>, or
  version 5 with it.
\<close>

datatype open_flag = OPEN_WVC | OPEN_NORMALIZE | OPEN_STREAMING | OPEN_DSD_NATIVE | OPEN_DSD_AS_PCM

datatype build = Without_DSD | DSD_as_PCM | DSD_native

definition OPEN_DSD_FLAG :: "build \<Rightarrow> open_flag set" where
  "OPEN_DSD_FLAG b =
     (case b of Without_DSD \<Rightarrow> {} | DSD_as_PCM \<Rightarrow> {OPEN_DSD_AS_PCM} | DSD_native \<Rightarrow> {OPEN_DSD_NATIVE})"

text \<open>
  How a driver can end other than by returning: with an exception thrown, by
  dereferencing a null pointer, or by dividing by zero.
\<close>

datatype failure = Thrown exception | NullPointerDereference | DivisionByZero

text \<open>
  The calls that are traced. The two open calls carry their flags and whether the library
  returned a handle; \<open>E_WavpackOpenFileInputEx\<close> also carries whether \<^verbatim>\<open>wvc_id\<close> was
  non-null. \<open>E_WavpackSeekSample\<close> carries the \<^verbatim>\<open>uint32_t\<close> sample the library is
  given. \<open>E_SubmitData\<close> carries the length and the bit rate passed.
  \<open>E_tag_handler_invoke_duration\<close> carries the \<^verbatim>\<open>SongTime\<close> passed.
\<close>

datatype event =
    E_OpenUri string
  | E_WavpackOpenFileInput string "open_flag set" bool
  | E_WavpackOpenFileInputEx bool "open_flag set" bool
  | E_WavpackCloseFile
  | E_Ready AudioFormat bool SignedSongTime
  | E_WavpackSeekSample "32 word"
  | E_CommandFinished
  | E_SeekError
  | E_WavpackUnpackSamples "32 word"
  | E_SubmitData "32 word" int
  | E_tag_handler_invoke_duration "32 word"

text \<open>
  The library's answers: \<open>open_error\<close> is the error text when the open call returns
  \<^verbatim>\<open>nullptr\<close>; \<open>mode_float\<close> and \<open>qmode_dsd\<close> are the \<^verbatim>\<open>MODE_FLOAT\<close> and
  \<^verbatim>\<open>QMODE_DSD_AUDIO\<close> bits; \<open>num_samples\<close> is \<open>None\<close> for the unknown count \<open>-1\<close>;
  \<open>batches\<close> are the results of the coming \<^verbatim>\<open>WavpackUnpackSamples\<close> calls, 0 once they
  are used up; \<open>instant_bitrate\<close> is the value of
  \<^verbatim>\<open>(int)(WavpackGetInstantBitrate(wpc) / 1000 + 0.5)\<close>. The host's answers:
  \<open>command\<close> is what \<^verbatim>\<open>GetCommand()\<close> returns, \<open>replies\<close> are the results of the coming
  \<^verbatim>\<open>SubmitData\<close> calls, \<^verbatim>\<open>NONE\<close> once they are used up, \<open>seek_frame\<close> is the 64-bit
  \<^verbatim>\<open>GetSeekFrame()\<close>; \<open>open_uri\<close> is \<^verbatim>\<open>OpenUri\<close>, which throws or returns a stream
  pointer; \<open>FromScale\<close> is \<^verbatim>\<open>SongTime::FromScale<uint64_t>\<close>, the milliseconds that a
  number of samples lasts at a sample rate.
\<close>

record Session =
  build_config :: build
  open_error :: "string option"
  mode_float :: bool
  qmode_dsd :: bool
  bytes_per_sample :: int
  sample_rate :: nat
  reduced_channels :: nat
  num_samples :: "nat option"
  batches :: "32 word list"
  seek_sample_ok :: bool
  instant_bitrate :: int
  check_audio_format :: "nat \<Rightarrow> SampleFormat \<Rightarrow> nat \<Rightarrow> exception + AudioFormat"
  command :: DecoderCommand
  replies :: "DecoderCommand list"
  seek_frame :: "64 word"
  FromScale :: "nat \<Rightarrow> nat \<Rightarrow> 32 word"
  open_uri :: "string \<Rightarrow> exception + InputStream option"
  trace :: "event list"

definition emit :: "event \<Rightarrow> Session \<Rightarrow> Session" where
  "emit e s = s\<lparr>trace := trace s @ [e]\<rparr>"

subsection \<open>The drivers\<close>

text \<open>
  \<^verbatim>\<open>WavpackOpenInput(Path path, int flags, int norm_offset)\<close> throws a
  \<^verbatim>\<open>FormatRuntimeError\<close> when the library returns \<^verbatim>\<open>nullptr\<close>.
\<close>

definition WavpackOpenInput :: "string \<Rightarrow> open_flag set \<Rightarrow> Session \<Rightarrow> (failure + unit) \<times> Session" where
  "WavpackOpenInput path flags s =
     (case open_error s of
        Some error \<Rightarrow>
          (Inl (Thrown (RuntimeError
             (''failed to open WavPack file \"'' @ path @ ''\": '' @ error))),
           emit (E_WavpackOpenFileInput path flags False) s)
      | None \<Rightarrow> (Inr (), emit (E_WavpackOpenFileInput path flags True) s))"

text \<open>
  \<^verbatim>\<open>WavpackOpenInput(WavpackStreamReader *reader, void *wv_id, void *wvc_id, ...)\<close>,
  the overload for streams.
\<close>

definition WavpackOpenInput_reader ::
  "WavpackInput \<Rightarrow> WavpackInput option \<Rightarrow> open_flag set \<Rightarrow> Session \<Rightarrow> (failure + unit) \<times> Session"
where
  "WavpackOpenInput_reader wv_id wvc_id flags s =
     (case open_error s of
        Some error \<Rightarrow>
          (Inl (Thrown (RuntimeError (''failed to open WavPack stream: '' @ error))),
           emit (E_WavpackOpenFileInputEx (wvc_id \<noteq> None) flags False) s)
      | None \<Rightarrow> (Inr (), emit (E_WavpackOpenFileInputEx (wvc_id \<noteq> None) flags True) s))"

definition WavpackCloseFile :: "Session \<Rightarrow> Session" where
  "WavpackCloseFile s = emit E_WavpackCloseFile s"

text \<open>
  \<^verbatim>\<open>AtScopeExit(...) { ... };\<close> registers a block that runs when the enclosing scope is
  left, by a return or by an exception passing through. The second argument is how the
  rest of the scope ended. A null dereference or a division by zero ends the process, and
  no block runs after it.
\<close>

definition AtScopeExit ::
  "(Session \<Rightarrow> Session) \<Rightarrow> (failure + 'a) \<times> Session \<Rightarrow> (failure + 'a) \<times> Session"
where
  "AtScopeExit block rest =
     (case rest of
        (Inr v, s) \<Rightarrow> (Inr v, block s)
      | (Inl (Thrown e), s) \<Rightarrow> (Inl (Thrown e), block s)
      | (Inl NullPointerDereference, s) \<Rightarrow> (Inl NullPointerDereference, s)
      | (Inl DivisionByZero, s) \<Rightarrow> (Inl DivisionByZero, s))"

text \<open>
  \<^verbatim>\<open>GetDuration(WavpackContext *wpc)\<close>: the \<^verbatim>\<open>SongTime\<close> that \<^verbatim>\<open>FromScale\<close> gives is
  returned as a \<^verbatim>\<open>SignedSongTime\<close>.
\<close>

definition GetDuration :: "Session \<Rightarrow> SignedSongTime" where
  "GetDuration s =
     (case num_samples s of None \<Rightarrow> Negative | Some n \<Rightarrow> FromScale s n (sample_rate s))"

text \<open>
  \<^verbatim>\<open>wavpack_bits_to_sample_format\<close>; in a build without DSD the parameter \<^verbatim>\<open>is_dsd\<close>
  does not exist, which is \<^verbatim>\<open>is_dsd\<close> being false.
\<close>

definition wavpack_bits_to_sample_format :: "bool \<Rightarrow> bool \<Rightarrow> int \<Rightarrow> SampleFormat" where
  "wavpack_bits_to_sample_format is_float is_dsd bytes_per_sample' =
     (if is_float then FLOAT
      else if is_dsd then DSD
      else if bytes_per_sample' = 1 then S8
      else if bytes_per_sample' = 2 then S16
      else if bytes_per_sample' = 3 then S24_P32
      else if bytes_per_sample' = 4 then S32
      else UNDEFINED)"

text \<open>
  The body of \<^verbatim>\<open>if (cmd == DecoderCommand::SEEK)\<close> in the decode loop.
  \<^verbatim>\<open>WavpackSeekSample\<close> takes a \<^verbatim>\<open>uint32_t\<close>, so the seek frame is cut to 32 bits.
\<close>

definition seek_command :: "bool \<Rightarrow> Session \<Rightarrow> Session" where
  "seek_command can_seek s =
     (if can_seek then
        (if seek_sample_ok s
         then emit E_CommandFinished (emit (E_WavpackSeekSample (ucast (seek_frame s))) s)
         else emit E_SeekError (emit (E_WavpackSeekSample (ucast (seek_frame s))) s))
      else emit E_SeekError s)"

definition WavpackUnpackSamples :: "Session \<Rightarrow> 32 word \<Rightarrow> 32 word \<times> Session" where
  "WavpackUnpackSamples s samples_requested =
     (case batches s of
        [] \<Rightarrow> (0, emit (E_WavpackUnpackSamples samples_requested) s)
      | b # bs \<Rightarrow> (b, emit (E_WavpackUnpackSamples samples_requested) (s\<lparr>batches := bs\<rparr>)))"

definition SubmitData :: "Session \<Rightarrow> 32 word \<Rightarrow> int \<Rightarrow> DecoderCommand \<times> Session" where
  "SubmitData s len kbit_rate =
     (case replies s of
        [] \<Rightarrow> (NONE, emit (E_SubmitData len kbit_rate) s)
      | c # cs \<Rightarrow> (c, emit (E_SubmitData len kbit_rate) (s\<lparr>replies := cs\<rparr>)))"

text \<open>
  The \<^verbatim>\<open>while (cmd != DecoderCommand::STOP)\<close> loop of \<^verbatim>\<open>wavpack_decode\<close>, with the local
  \<^verbatim>\<open>cmd\<close> as an argument. \<^verbatim>\<open>samples_got * output_sample_size\<close> is a 32-bit unsigned
  product. Every turn that goes on takes one entry of \<open>batches\<close>, which is the measure.
\<close>

function wavpack_decode_loop ::
  "bool \<Rightarrow> 32 word \<Rightarrow> 32 word \<Rightarrow> Session \<Rightarrow> DecoderCommand \<Rightarrow> Session"
where
  "wavpack_decode_loop can_seek output_sample_size samples_requested s cmd =
     (if cmd = STOP then s
      else
        (case WavpackUnpackSamples (if cmd = SEEK then seek_command can_seek s else s)
                samples_requested of
           (samples_got, s2) \<Rightarrow>
             if samples_got = 0 then s2
             else
               (case SubmitData s2 (samples_got * output_sample_size) (instant_bitrate s2) of
                  (cmd', s3) \<Rightarrow>
                    wavpack_decode_loop can_seek output_sample_size samples_requested s3 cmd')))"
  by pat_completeness auto
termination
  by (relation "measure (\<lambda>(c, f, n, s, cmd). length (batches s))")
    (auto simp: WavpackUnpackSamples_def SubmitData_def seek_command_def emit_def
      split: list.splits if_splits)

declare wavpack_decode_loop.simps [simp del]

text \<open>
  \<^verbatim>\<open>wavpack_decode(DecoderClient &client, WavpackContext *wpc, bool can_seek)\<close>.
  \<^verbatim>\<open>CheckAudioFormat\<close> may throw; \<^verbatim>\<open>ARRAY_SIZE(chunk) / audio_format.channels\<close> is
  \<open>1024\<close> divided by the channel count, after \<^verbatim>\<open>client.Ready\<close>.
\<close>

definition wavpack_decode :: "bool \<Rightarrow> Session \<Rightarrow> (failure + unit) \<times> Session" where
  "wavpack_decode can_seek s =
     (let is_float = mode_float s;
          is_dsd = (build_config s = DSD_native \<and> qmode_dsd s);
          sample_format = wavpack_bits_to_sample_format is_float is_dsd (bytes_per_sample s)
      in case check_audio_format s (sample_rate s) sample_format (reduced_channels s) of
           Inl e \<Rightarrow> (Inl (Thrown e), s)
         | Inr audio_format \<Rightarrow>
             (let s1 = emit (E_Ready audio_format can_seek (GetDuration s)) s
              in if af_channels audio_format = 0 then (Inl DivisionByZero, s1)
                 else (Inr (),
                       wavpack_decode_loop can_seek (af_frame_size audio_format)
                         (word_of_nat (1024 div af_channels audio_format)) s1 (command s1))))"

text \<open>
  \<^verbatim>\<open>wavpack_open_wvc(DecoderClient &client, const char *uri)\<close>. It builds \<^verbatim>\<open>wvc_url\<close>,
  the URI with a \<^verbatim>\<open>c\<close> appended, and then calls \<^verbatim>\<open>client.OpenUri(uri)\<close>; a
  \<^verbatim>\<open>std::runtime_error\<close> from it gives \<^verbatim>\<open>nullptr\<close>.
\<close>

definition wavpack_open_wvc :: "string option \<Rightarrow> Session \<Rightarrow> (failure + InputStream option) \<times> Session" where
  "wavpack_open_wvc uri' s =
     (case uri' of
        None \<Rightarrow> (Inr None, s)
      | Some u \<Rightarrow>
          (let wvc_url = u @ ''c''
           in case open_uri s u of
                Inr is_wvc \<Rightarrow> (Inr is_wvc, emit (E_OpenUri u) s)
              | Inl (RuntimeError m) \<Rightarrow> (Inr None, emit (E_OpenUri u) s)
              | Inl OtherException \<Rightarrow> (Inl (Thrown OtherException), emit (E_OpenUri u) s)))"

text \<open>
  \<^verbatim>\<open>wavpack_streamdecode(DecoderClient &client, InputStream &is)\<close>. \<^verbatim>\<open>wvc\<close> is a
  \<^verbatim>\<open>std::unique_ptr<WavpackInput>\<close>, null until \<^verbatim>\<open>wvc.reset(...)\<close>; the statement
  \<^verbatim>\<open>can_seek &= wvc->is.IsSeekable()\<close> comes before the \<^verbatim>\<open>reset\<close> and dereferences it.
  \<^verbatim>\<open>AtScopeExit(wpc) { WavpackCloseFile(wpc); }\<close> is registered once the open has
  returned a handle.
\<close>

definition wavpack_streamdecode :: "InputStream \<Rightarrow> Session \<Rightarrow> (failure + unit) \<times> Session" where
  "wavpack_streamdecode is' s =
     (let open_flags = OPEN_DSD_FLAG (build_config s) \<union> {OPEN_NORMALIZE};
          can_seek = IsSeekable is';
          wvc = (None :: WavpackInput option)
      in case wavpack_open_wvc (uri is') s of
           (Inl f, s1) \<Rightarrow> (Inl f, s1)
         | (Inr is_wvc, s1) \<Rightarrow>
             (case (case is_wvc of
                      None \<Rightarrow> Inr (open_flags, can_seek, wvc)
                    | Some companion \<Rightarrow>
                        (case wvc of
                           None \<Rightarrow> Inl NullPointerDereference
                         | Some w \<Rightarrow>
                             Inr (open_flags \<union> {OPEN_WVC},
                                  can_seek \<and> IsSeekable (istream w),
                                  Some (new_WavpackInput companion)))) of
                Inl f \<Rightarrow> (Inl f, s1)
              | Inr (open_flags, can_seek, wvc) \<Rightarrow>
                  (case WavpackOpenInput_reader (new_WavpackInput is') wvc
                          (if \<not> can_seek then open_flags \<union> {OPEN_STREAMING} else open_flags) s1 of
                     (Inl f, s2) \<Rightarrow> (Inl f, s2)
                   | (Inr wpc, s2) \<Rightarrow>
                       AtScopeExit WavpackCloseFile (wavpack_decode can_seek s2))))"

text \<open>\<^verbatim>\<open>wavpack_filedecode(DecoderClient &client, Path path_fs)\<close>.\<close>

definition wavpack_filedecode :: "string \<Rightarrow> Session \<Rightarrow> (failure + unit) \<times> Session" where
  "wavpack_filedecode path_fs s =
     (case WavpackOpenInput path_fs
             (OPEN_DSD_FLAG (build_config s) \<union> {OPEN_NORMALIZE} \<union> {OPEN_WVC}) s of
        (Inl f, s1) \<Rightarrow> (Inl f, s1)
      | (Inr wpc, s1) \<Rightarrow> AtScopeExit WavpackCloseFile (wavpack_decode True s1))"

text \<open>\<^verbatim>\<open>wavpack_scan_file(Path path_fs, const TagHandler &handler, void *handler_ctx)\<close>.\<close>

definition wavpack_scan_file :: "string \<Rightarrow> Session \<Rightarrow> (failure + bool) \<times> Session" where
  "wavpack_scan_file path_fs s =
     (case WavpackOpenInput path_fs (OPEN_DSD_FLAG (build_config s)) s of
        (Inl f, s1) \<Rightarrow> (Inl f, s1)
      | (Inr wpc, s1) \<Rightarrow>
          AtScopeExit WavpackCloseFile
            (let duration = GetDuration s1
             in (Inr True,
                 if \<not> IsNegative duration
                 then emit (E_tag_handler_invoke_duration duration) s1 else s1)))"

subsection \<open>Reading a trace\<close>

text \<open>
  How often a handle was opened (an open call that returned one), how often
  \<^verbatim>\<open>WavpackCloseFile\<close> was called, and how often data was submitted.
\<close>

definition handle_opened :: "event \<Rightarrow> bool" where
  "handle_opened e =
     (case e of E_WavpackOpenFileInput p f ok \<Rightarrow> ok | E_WavpackOpenFileInputEx w f ok \<Rightarrow> ok
      | _ \<Rightarrow> False)"

definition opens :: "event list \<Rightarrow> nat" where
  "opens t = length (filter handle_opened t)"

definition closes :: "event list \<Rightarrow> nat" where
  "closes t = length (filter (\<lambda>e. e = E_WavpackCloseFile) t)"

definition is_SubmitData :: "event \<Rightarrow> bool" where
  "is_SubmitData e = (case e of E_SubmitData l b \<Rightarrow> True | _ \<Rightarrow> False)"

definition submits :: "event list \<Rightarrow> nat" where
  "submits t = length (filter is_SubmitData t)"

text \<open>
  The turns of the decode loop, read off the answers of library and host. A turn starts
  with a command: the command at entry, then what the \<^verbatim>\<open>SubmitData\<close> calls return,
  \<^verbatim>\<open>NONE\<close> when the host has nothing more to say; \<open>turn_commands\<close> lists the commands of
  as many turns as there are batches, and of one more. A full turn is one whose command
  is not \<^verbatim>\<open>STOP\<close> and whose batch is not 0; \<open>full_turns\<close> are the leading ones, each with
  its command and its batch. A full turn makes the calls \<open>turn_events\<close> (the seek, when
  the command is \<^verbatim>\<open>SEEK\<close>, then one unpack and one submit); the turn after the last full
  one makes the calls \<open>last_turn_events\<close>: none at \<^verbatim>\<open>STOP\<close>, and otherwise the seek,
  when the command is \<^verbatim>\<open>SEEK\<close>, and the one unpack that returned 0.
\<close>

definition seek_events :: "bool \<Rightarrow> Session \<Rightarrow> event list" where
  "seek_events can_seek s =
     (if can_seek then
        [E_WavpackSeekSample (ucast (seek_frame s)),
         if seek_sample_ok s then E_CommandFinished else E_SeekError]
      else [E_SeekError])"

definition turn_commands :: "DecoderCommand \<Rightarrow> Session \<Rightarrow> DecoderCommand list" where
  "turn_commands cmd s =
     take (Suc (length (batches s))) (cmd # replies s @ replicate (length (batches s)) NONE)"

definition full_turns :: "DecoderCommand \<Rightarrow> Session \<Rightarrow> (DecoderCommand \<times> 32 word) list" where
  "full_turns cmd s =
     takeWhile (\<lambda>(c, b). c \<noteq> STOP \<and> b \<noteq> 0) (zip (turn_commands cmd s) (batches s))"

definition turn_events ::
  "bool \<Rightarrow> 32 word \<Rightarrow> 32 word \<Rightarrow> Session \<Rightarrow> DecoderCommand \<times> 32 word \<Rightarrow> event list"
where
  "turn_events can_seek output_sample_size samples_requested s turn =
     (if fst turn = SEEK then seek_events can_seek s else []) @
     [E_WavpackUnpackSamples samples_requested,
      E_SubmitData (snd turn * output_sample_size) (instant_bitrate s)]"

definition last_turn_events :: "bool \<Rightarrow> 32 word \<Rightarrow> Session \<Rightarrow> DecoderCommand \<Rightarrow> event list" where
  "last_turn_events can_seek samples_requested s cmd =
     (if cmd = STOP then []
      else (if cmd = SEEK then seek_events can_seek s else []) @
           [E_WavpackUnpackSamples samples_requested])"

subsection \<open>A session for the examples\<close>

text \<open>
  A 16-bit stereo file of 512 samples at 44100 Hz whose library hands out the batches
  256, 256 and 0; a host with no command pending, whose \<^verbatim>\<open>CheckAudioFormat\<close> rejects
  the undefined sample format and a channel count of 0, whose \<^verbatim>\<open>FromScale\<close> divides
  the samples times 1000 by the rate, and whose \<^verbatim>\<open>OpenUri\<close> finds nothing; and a stream
  with a URI.
\<close>

definition example_session :: Session where
  "example_session =
     \<lparr>build_config = Without_DSD, open_error = None, mode_float = False, qmode_dsd = False,
      bytes_per_sample = 2, sample_rate = 44100, reduced_channels = 2,
      num_samples = Some 512, batches = [256, 256, 0], seek_sample_ok = True,
      instant_bitrate = 900,
      check_audio_format = (\<lambda>rate format channels.
        if format = UNDEFINED then Inl (RuntimeError ''Invalid sample format'')
        else if channels = 0 then Inl (RuntimeError ''Invalid channel count'')
        else Inr \<lparr>af_sample_rate = rate, af_format = format, af_channels = channels,
                  af_frame_size = 2 * word_of_nat channels\<rparr>),
      command = NONE, replies = [], seek_frame = 0,
      FromScale = (\<lambda>n rate. word_of_nat (n * 1000 div rate)),
      open_uri = (\<lambda>u. Inl (RuntimeError ''no such stream'')),
      trace = []\<rparr>"

definition http_stream :: InputStream where
  "http_stream = (mem_stream [])\<lparr>uri := Some ''http://host/a.wv''\<rparr>"

text \<open>
  The \<^verbatim>\<open>client.Ready\<close> call of a seekable decode of the example session; its 512
  samples last 11 milliseconds.
\<close>

definition example_ready :: event where
  "example_ready =
     E_Ready \<lparr>af_sample_rate = 44100, af_format = S16, af_channels = 2, af_frame_size = 4\<rparr>
       True 11"

subsection \<open>Facts about words and about one turn of the read loop\<close>

lemma minus_one_64: "(- 1 :: 64 word) = 0xFFFFFFFFFFFFFFFF"
  by simp

lemma minus_one_32: "(- 1 :: 32 word) = 0xFFFFFFFF"
  by simp

lemma unat_sub_of_nat:
  fixes b :: "64 word"
  assumes "k \<le> unat b"
  shows "unat (b - word_of_nat k) = unat b - k"
proof -
  have k: "unat (word_of_nat k :: 64 word) = k" using assms by (rule le_unat_uoi)
  then have "(word_of_nat k :: 64 word) \<le> b" using assms by (simp add: word_le_nat_alt)
  then show ?thesis using k by (simp add: unat_sub)
qed

lemma unat_add_of_nat:
  fixes i :: "32 word"
  assumes "unat i + k < 2 ^ 31"
  shows "unat (i + word_of_nat k) = unat i + k"
proof -
  have "k < 2 ^ 32" using assms by simp
  then have k: "unat (word_of_nat k :: 32 word) = k"
    by (simp add: unat_of_nat)
  have "unat i + unat (word_of_nat k :: 32 word) < 2 ^ LENGTH(32)"
    using assms k by simp
  then have "unat (i + word_of_nat k) = unat i + unat (word_of_nat k :: 32 word)"
    by (simp only: unat_add_lem)
  then show ?thesis using k by simp
qed

lemma of_nat_eq_0_64:
  fixes b :: "64 word"
  assumes "k \<le> unat b"
  shows "(word_of_nat k :: 64 word) = 0 \<longleftrightarrow> k = 0"
proof -
  have "unat (word_of_nat k :: 64 word) = k" using assms by (rule le_unat_uoi)
  then show ?thesis by auto
qed

lemma sint_small:
  fixes i :: "32 word"
  assumes "unat i < 2 ^ 31"
  shows "sint i = int (unat i)"
proof -
  have "int (unat i) < int (2 ^ 31)" using assms by (simp only: of_nat_less_iff)
  then have lt: "uint i < 2 ^ 31" by simp
  have ge: "- (2 ^ 31) \<le> uint i" by (rule order_trans [of _ 0]) simp_all
  have "signed_take_bit 31 (uint i) = uint i"
    using ge lt by (rule signed_take_bit_int_eq_self)
  then show ?thesis by (simp add: sint_uint)
qed

lemma ReadBytes_loop_stop:
  "bcount = 0 \<Longrightarrow> ReadBytes_loop decoder_read s buf bcount i = Some (s, buf, i)"
  by (subst ReadBytes_loop.simps) simp

lemma ReadBytes_loop_eof:
  "0 < bcount \<Longrightarrow> decoder_read s bcount = (bytes, s1)
    \<Longrightarrow> (word_of_nat (length bytes) :: 64 word) = 0
    \<Longrightarrow> ReadBytes_loop decoder_read s buf bcount i = Some (s1, buf, i)"
  by (subst ReadBytes_loop.simps) simp

lemma ReadBytes_loop_step:
  "0 < bcount \<Longrightarrow> decoder_read s bcount = (bytes, s1)
    \<Longrightarrow> (word_of_nat (length bytes) :: 64 word) \<noteq> 0
    \<Longrightarrow> ReadBytes_loop decoder_read s buf bcount i
      = ReadBytes_loop decoder_read s1 (buf @ bytes) (bcount - word_of_nat (length bytes))
              (i + word_of_nat (length bytes))"
  by (subst ReadBytes_loop.simps) simp

subsection \<open>The pushback slot\<close>

text \<open>
  C3. When the pushback slot holds a byte \<open>b1\<close> (\<^verbatim>\<open>last_byte\<close> is not \<^verbatim>\<open>EOF\<close>),
  \<^verbatim>\<open>wavpack_input_push_back_byte\<close> with any \<open>b2\<close> returns \<^verbatim>\<open>EOF\<close>, the rejected
  sentinel, and leaves the adapter as it was: the slot still holds \<open>b1\<close>. The slot is
  the single field \<^verbatim>\<open>last_byte\<close>, so no second byte is ever buffered.
\<close>

theorem push_back_byte_occupied:
  assumes "last_byte wpi = b1" and "b1 \<noteq> EOF"
  shows "wavpack_input_push_back_byte wpi b2 = (wpi, EOF) \<and>
         last_byte (fst (wavpack_input_push_back_byte wpi b2)) = b1"
  using assms by (simp add: wavpack_input_push_back_byte_def)

theorem push_back_byte_occupied_witness:
  "last_byte ((new_WavpackInput (mem_stream []))\<lparr>last_byte := 0x41\<rparr>) = 0x41 \<and>
   (0x41 :: 32 word) \<noteq> EOF \<and>
   wavpack_input_push_back_byte ((new_WavpackInput (mem_stream []))\<lparr>last_byte := 0x41\<rparr>) 0x42
     = ((new_WavpackInput (mem_stream []))\<lparr>last_byte := 0x41\<rparr>, EOF) \<and>
   last_byte (fst (wavpack_input_push_back_byte
       ((new_WavpackInput (mem_stream []))\<lparr>last_byte := 0x41\<rparr>) 0x42)) = 0x41"
proof -
  have a: "last_byte ((new_WavpackInput (mem_stream []))\<lparr>last_byte := 0x41\<rparr>) = 0x41" by simp
  have b: "(0x41 :: 32 word) \<noteq> EOF" by (simp add: EOF_def)
  from push_back_byte_occupied [OF a b, of "0x42"] a b show ?thesis by simp
qed

text \<open>
  C10. With an empty slot, pushing back \<^verbatim>\<open>EOF\<close> itself (the \<^verbatim>\<open>int\<close> \<open>-1\<close>) stores
  \<^verbatim>\<open>EOF\<close> and returns it: the caller reads the rejected sentinel and the slot is still
  empty, because an empty slot is a slot that holds \<^verbatim>\<open>EOF\<close>.
\<close>

theorem push_back_byte_EOF:
  assumes "last_byte wpi = EOF"
  shows "sint EOF = - 1 \<and> wavpack_input_push_back_byte wpi EOF = (wpi, EOF) \<and>
         last_byte (fst (wavpack_input_push_back_byte wpi EOF)) = EOF"
  using assms by (simp add: wavpack_input_push_back_byte_def EOF_def)

theorem push_back_byte_EOF_witness:
  "last_byte (new_WavpackInput (mem_stream [1, 2])) = EOF \<and> sint EOF = - 1 \<and>
   wavpack_input_push_back_byte (new_WavpackInput (mem_stream [1, 2])) EOF
     = (new_WavpackInput (mem_stream [1, 2]), EOF) \<and>
   last_byte (fst (wavpack_input_push_back_byte (new_WavpackInput (mem_stream [1, 2])) EOF)) = EOF"
proof -
  have a: "last_byte (new_WavpackInput (mem_stream [1, 2])) = EOF"
    by (simp add: new_WavpackInput_def)
  from push_back_byte_EOF [OF a] a show ?thesis by simp
qed

text \<open>
  C4. With an empty slot and a byte \<open>b\<close> in 0..255, \<^verbatim>\<open>wavpack_input_push_back_byte\<close>
  stores \<open>b\<close> and returns it; a read of length 1 through \<^verbatim>\<open>wavpack_input_read_bytes\<close>
  right afterwards stores exactly the byte \<open>b\<close>, returns 1, does not touch the stream
  (whatever \<^verbatim>\<open>decoder_read\<close> would do) and leaves the slot empty, that is, the adapter
  as it was before the push.
\<close>

theorem push_back_then_read_one:
  assumes "last_byte wpi = EOF" and "b \<le> 255"
  shows "wavpack_input_push_back_byte wpi b = (wpi\<lparr>last_byte := b\<rparr>, b) \<and>
         wavpack_input_read_bytes decoder_read (fst (wavpack_input_push_back_byte wpi b)) 1
           = Some (wpi, [ucast b], 1) \<and>
         unat (ucast b :: 8 word) = unat b"
proof -
  have ne: "b \<noteq> EOF" using assms(2) unfolding EOF_def minus_one_32 by auto
  have u: "unat (ucast b :: 8 word) = unat b"
    using assms(2) by (simp add: unsigned_ucast_eq word_le_nat_alt take_bit_nat_eq_self_iff)
  show ?thesis using assms(1) ne u
    by (simp add: wavpack_input_push_back_byte_def wavpack_input_read_bytes_def ReadBytes_def
        ReadBytes_loop.simps)
qed

theorem push_back_then_read_one_witness:
  "last_byte (new_WavpackInput (mem_stream [1, 2])) = EOF \<and> (0x41 :: 32 word) \<le> 255 \<and>
   wavpack_input_push_back_byte (new_WavpackInput (mem_stream [1, 2])) 0x41
     = ((new_WavpackInput (mem_stream [1, 2]))\<lparr>last_byte := 0x41\<rparr>, 0x41) \<and>
   wavpack_input_read_bytes (mem_read 4096)
       (fst (wavpack_input_push_back_byte (new_WavpackInput (mem_stream [1, 2])) 0x41)) 1
     = Some (new_WavpackInput (mem_stream [1, 2]), [0x41], 1)"
proof -
  have a: "last_byte (new_WavpackInput (mem_stream [1, 2])) = EOF"
    by (simp add: new_WavpackInput_def)
  have b: "(0x41 :: 32 word) \<le> 255" by simp
  have c: "(ucast (0x41 :: 32 word) :: 8 word) = 0x41" by simp
  from push_back_then_read_one [OF a b, of "mem_read 4096"] a b show ?thesis
    unfolding c by blast
qed

subsection \<open>Reading\<close>

text \<open>
  Where \<^verbatim>\<open>ReadBytes\<close> keeps its promise. Take a \<^verbatim>\<open>decoder_read\<close> that never stores
  more than it was asked for, a count below \<open>2^31\<close> (the callback's count is a
  non-negative \<^verbatim>\<open>int32_t\<close>), and either an empty pushback slot or a count of at least
  one. Then the call returns; the slot is empty afterwards; the result, read as a signed
  number, is the number of bytes stored, which is at most the count; a pushed-back byte
  comes first; and fewer bytes than the count are stored only if some read returned 0.
\<close>

lemma ReadBytes_loop_in_contract:
  assumes contract: "\<And>s n. length (fst (decoder_read s n)) \<le> unat n"
  shows "unat i + unat bcount < 2 ^ 31 \<Longrightarrow>
    \<exists>s' got i'. ReadBytes_loop decoder_read s buf bcount i = Some (s', buf @ got, i') \<and>
       unat i' = unat i + length got \<and> length got \<le> unat bcount \<and>
       (length got < unat bcount \<longrightarrow> (\<exists>st n. 0 < n \<and> fst (decoder_read st n) = []))"
proof (induction "unat bcount" arbitrary: s buf bcount i rule: less_induct)
  case less
  show ?case
  proof (cases "bcount = 0")
    case True
    have "ReadBytes_loop decoder_read s buf bcount i = Some (s, buf @ [], i)"
      using ReadBytes_loop_stop [OF True] by simp
    then show ?thesis using True by fastforce
  next
    case False
    then have pos: "0 < bcount" by (simp add: word_greater_zero_iff)
    obtain bytes s1 where rd: "decoder_read s bcount = (bytes, s1)" by (cases "decoder_read s bcount")
    have len: "length bytes \<le> unat bcount" using contract [of s bcount] rd by simp
    show ?thesis
    proof (cases "bytes = []")
      case True
      have "ReadBytes_loop decoder_read s buf bcount i = Some (s1, buf @ [], i)"
        using ReadBytes_loop_eof [where decoder_read = decoder_read and s = s, OF pos rd] True by simp
      moreover have "fst (decoder_read s bcount) = []" using rd True by simp
      ultimately show ?thesis using pos by fastforce
    next
      case ne: False
      then have k0: "0 < length bytes" by simp
      have nz: "(word_of_nat (length bytes) :: 64 word) \<noteq> 0"
        using of_nat_eq_0_64 [OF len] k0 by simp
      note step = ReadBytes_loop_step [where decoder_read = decoder_read and s = s and buf = buf and i = i, OF pos rd nz]
      have ub: "unat (bcount - word_of_nat (length bytes)) = unat bcount - length bytes"
        by (rule unat_sub_of_nat [OF len])
      have ui: "unat (i + word_of_nat (length bytes)) = unat i + length bytes"
        using less.prems len by (intro unat_add_of_nat) simp
      have dec: "unat (bcount - word_of_nat (length bytes)) < unat bcount"
        using ub k0 len by arith
      have fits: "unat (i + word_of_nat (length bytes)) + unat (bcount - word_of_nat (length bytes)) < 2 ^ 31"
        using ub ui len less.prems by simp
      from less.hyps [OF dec fits, of s1 "buf @ bytes"]
      obtain s' got i' where r: "ReadBytes_loop decoder_read s1 (buf @ bytes)
            (bcount - word_of_nat (length bytes)) (i + word_of_nat (length bytes))
          = Some (s', (buf @ bytes) @ got, i')"
        and u: "unat i' = unat (i + word_of_nat (length bytes)) + length got"
        and l: "length got \<le> unat (bcount - word_of_nat (length bytes))"
        and e: "length got < unat (bcount - word_of_nat (length bytes)) \<longrightarrow>
                 (\<exists>st n. 0 < n \<and> fst (decoder_read st n) = [])"
        by blast
      have 1: "ReadBytes_loop decoder_read s buf bcount i = Some (s', buf @ (bytes @ got), i')"
        using step r by simp
      have 2: "unat i' = unat i + length (bytes @ got)" using u ui by simp
      have 3: "length (bytes @ got) \<le> unat bcount" using l ub len by simp
      have 4: "length (bytes @ got) < unat bcount \<longrightarrow>
                 (\<exists>st n. 0 < n \<and> fst (decoder_read st n) = [])"
        using e ub len by simp
      from 1 2 3 4 show ?thesis by blast
    qed
  qed
qed


lemma ReadBytes_in_contract:
  assumes contract: "\<And>s n. length (fst (decoder_read s n)) \<le> unat n"
    and small: "unat bcount < 2 ^ 31"
    and room: "last_byte wpi = EOF \<or> 0 < bcount"
  shows "\<exists>wpi' buf i. ReadBytes decoder_read wpi bcount = Some (wpi', buf, i) \<and>
      last_byte wpi' = EOF \<and> sint i = int (length buf) \<and> length buf \<le> unat bcount \<and>
      (last_byte wpi \<noteq> EOF \<longrightarrow> take 1 buf = [ucast (last_byte wpi)]) \<and>
      (length buf < unat bcount \<longrightarrow> (\<exists>st n. 0 < n \<and> fst (decoder_read st n) = []))"
proof (cases "last_byte wpi = EOF")
  case True
  have "unat (0 :: 32 word) + unat bcount < 2 ^ 31" using small by simp
  from ReadBytes_loop_in_contract [where decoder_read = decoder_read and i = 0 and bcount = bcount and s = "istream wpi" and buf = "[]", OF contract this]
  obtain s' got i' where r: "ReadBytes_loop decoder_read (istream wpi) [] bcount 0 = Some (s', got, i')"
    and u: "unat i' = length got" and l: "length got \<le> unat bcount"
    and e: "length got < unat bcount \<longrightarrow> (\<exists>st n. 0 < n \<and> fst (decoder_read st n) = [])"
    by (simp only: unat_0 add_0 append_Nil) blast
  have "unat i' < 2 ^ 31" using u l small by simp
  then have "sint i' = int (length got)" using u by (simp add: sint_small)
  then show ?thesis using True r l e by (simp add: ReadBytes_def)
next
  case False
  then have pos: "0 < bcount" using room by simp
  then have "1 \<le> unat bcount" by (simp add: word_less_nat_alt)
  then have ub: "unat (bcount - 1) = unat bcount - 1"
    using unat_sub_of_nat [of 1 bcount] by simp
  then have "unat (1 :: 32 word) + unat (bcount - 1) < 2 ^ 31" using small by simp
  from ReadBytes_loop_in_contract [where decoder_read = decoder_read and i = 1 and bcount = "bcount - 1" and s = "istream wpi" and buf = "[ucast (last_byte wpi)]", OF contract this]
  obtain s' got i' where r: "ReadBytes_loop decoder_read (istream wpi) [ucast (last_byte wpi)] (bcount - 1) 1
        = Some (s', [ucast (last_byte wpi)] @ got, i')"
    and u: "unat i' = 1 + length got" and l: "length got \<le> unat (bcount - 1)"
    and e: "length got < unat (bcount - 1) \<longrightarrow> (\<exists>st n. 0 < n \<and> fst (decoder_read st n) = [])"
    by (simp only: unat_1) blast
  have "unat i' < 2 ^ 31" using u l ub small \<open>1 \<le> unat bcount\<close> by simp
  then have "sint i' = int (length ([ucast (last_byte wpi) :: 8 word] @ got))" using u by (simp add: sint_small)
  moreover have "length ([ucast (last_byte wpi) :: 8 word] @ got) \<le> unat bcount"
    using l ub \<open>1 \<le> unat bcount\<close> by simp
  moreover have "length ([ucast (last_byte wpi) :: 8 word] @ got) < unat bcount
      \<longrightarrow> (\<exists>st n. 0 < n \<and> fst (decoder_read st n) = [])"
    using e ub by simp
  ultimately show ?thesis using False r by (simp add: ReadBytes_def)
qed

text \<open>
  The one call the lemma above leaves out, a count of 0 while a byte is pushed back, on a
  stream of three bytes and on a stream of \<open>2^31 - 1\<close> bytes.
\<close>

lemma ReadBytes_zero_count_small:
  "wavpack_input_read_bytes (mem_read 4096)
     ((new_WavpackInput (mem_stream [1, 2, 3]))\<lparr>last_byte := 0x41\<rparr>) 0
   = Some (new_WavpackInput ((mem_stream [1, 2, 3])\<lparr>offset := 3\<rparr>), [0x41, 1, 2, 3], 4)"
  apply (simp add: wavpack_input_read_bytes_def ReadBytes_def new_WavpackInput_def EOF_def)
  apply (simp add: ReadBytes_loop.simps mem_read_def mem_stream_def word_greater_zero_iff
      minus_one_64 Let_def EOF_def)
  done

lemma ReadBytes_zero_count_large:
  "wavpack_input_read_bytes (mem_read (2 ^ 31))
     ((new_WavpackInput (mem_stream (replicate (2 ^ 31 - 1) 0)))\<lparr>last_byte := 0x41\<rparr>) 0
   = Some (new_WavpackInput ((mem_stream (replicate (2 ^ 31 - 1) 0))\<lparr>offset := 2 ^ 31 - 1\<rparr>),
        0x41 # replicate (2 ^ 31 - 1) 0, - (2 ^ 31))"
  apply (simp add: wavpack_input_read_bytes_def ReadBytes_def new_WavpackInput_def EOF_def)
  apply (simp add: ReadBytes_loop.simps mem_read_def mem_stream_def word_greater_zero_iff
      minus_one_64 Let_def EOF_def)
  done

text \<open>
  C1. The promise fails for a count of 0 while a byte is pushed back. \<^verbatim>\<open>ReadBytes\<close>
  stores the pushed-back byte without looking at \<^verbatim>\<open>bcount\<close>, and \<^verbatim>\<open>--bcount\<close> takes
  the \<^verbatim>\<open>size_t\<close> from 0 to \<open>2^64 - 1\<close>; the loop then drains the source. On a three-byte stream the call stores four bytes and
  returns 4 for a count of 0; on a stream of \<open>2^31 - 1\<close> bytes the \<^verbatim>\<open>int32_t\<close> result
  is \<open>-2^31\<close>, a negative value.
\<close>

theorem ReadBytes_zero_count_with_pushback:
  "wavpack_input_read_bytes (mem_read 4096)
     ((new_WavpackInput (mem_stream [1, 2, 3]))\<lparr>last_byte := 0x41\<rparr>) 0
   = Some (new_WavpackInput ((mem_stream [1, 2, 3])\<lparr>offset := 3\<rparr>), [0x41, 1, 2, 3], 4) \<and>
   wavpack_input_read_bytes (mem_read (2 ^ 31))
     ((new_WavpackInput (mem_stream (replicate (2 ^ 31 - 1) 0)))\<lparr>last_byte := 0x41\<rparr>) 0
   = Some (new_WavpackInput ((mem_stream (replicate (2 ^ 31 - 1) 0))\<lparr>offset := 2 ^ 31 - 1\<rparr>),
        0x41 # replicate (2 ^ 31 - 1) 0, - (2 ^ 31)) \<and>
   sint (- (2 ^ 31) :: 32 word) = - 2147483648"
  using ReadBytes_zero_count_small ReadBytes_zero_count_large by simp

subsection \<open>Position and length\<close>

text \<open>
  C9. \<^verbatim>\<open>wavpack_input_get_pos\<close> returns the stream's 64-bit offset modulo \<open>2^32\<close>, and
  \<^verbatim>\<open>wavpack_input_get_length\<close> returns a known 64-bit size modulo \<open>2^32\<close>; so an
  offset or a size above \<open>2^32 - 1\<close> is reported reduced.
\<close>

theorem get_pos_get_length_mod:
  "unat (wavpack_input_get_pos wpi) = unat (offset (istream wpi)) mod 2 ^ 32 \<and>
   (size (istream wpi) = Some n \<longrightarrow> unat (wavpack_input_get_length wpi) = unat n mod 2 ^ 32)"
  by (simp add: wavpack_input_get_pos_def wavpack_input_get_length_def GetOffset_def
      KnownSize_def GetSize_def unsigned_ucast_eq take_bit_eq_mod)

theorem get_pos_get_length_mod_witness:
  "size (istream (new_WavpackInput ((mem_stream [])\<lparr>offset := 4294967301, size := Some 8589934599\<rparr>)))
     = Some 8589934599 \<and>
   unat (wavpack_input_get_pos (new_WavpackInput ((mem_stream [])\<lparr>offset := 4294967301, size := Some 8589934599\<rparr>)))
     = unat (4294967301 :: 64 word) mod 2 ^ 32 \<and>
   unat (wavpack_input_get_length (new_WavpackInput ((mem_stream [])\<lparr>offset := 4294967301, size := Some 8589934599\<rparr>)))
     = unat (8589934599 :: 64 word) mod 2 ^ 32 \<and>
   wavpack_input_get_pos (new_WavpackInput ((mem_stream [])\<lparr>offset := 4294967301, size := Some 8589934599\<rparr>)) = 5 \<and>
   wavpack_input_get_length (new_WavpackInput ((mem_stream [])\<lparr>offset := 4294967301, size := Some 8589934599\<rparr>)) = 7"
proof -
  let ?w = "new_WavpackInput ((mem_stream [])\<lparr>offset := 4294967301, size := Some 8589934599\<rparr>)"
  have o: "offset (istream ?w) = 4294967301" and s: "size (istream ?w) = Some 8589934599"
    by (simp_all add: new_WavpackInput_def)
  have p: "wavpack_input_get_pos ?w = 5"
    by (simp add: wavpack_input_get_pos_def GetOffset_def new_WavpackInput_def)
  have l: "wavpack_input_get_length ?w = 7"
    by (simp add: wavpack_input_get_length_def GetSize_def KnownSize_def new_WavpackInput_def)
  from get_pos_get_length_mod [of ?w 8589934599] o s p l show ?thesis
    by metis
qed

subsection \<open>Seeking\<close>

text \<open>
  C6. On a stream of unknown size, \<^verbatim>\<open>wavpack_input_set_pos_rel\<close> with \<^verbatim>\<open>SEEK_END\<close>
  returns \<open>-1\<close> and leaves the adapter and its stream as they were, whatever
  \<^verbatim>\<open>LockSeek\<close> is: the seek is not invoked.
\<close>

theorem set_pos_rel_end_unknown_size:
  assumes "size (istream wpi) = None"
  shows "wavpack_input_set_pos_rel LockSeek wpi delta SEEK_END = Inr (wpi, - 1)"
  using assms
  by (simp add: wavpack_input_set_pos_rel_def set_pos_rel_offset_def KnownSize_def
      SEEK_END_def SEEK_SET_def SEEK_CUR_def)

theorem set_pos_rel_end_unknown_size_witness:
  "size (istream (new_WavpackInput ((mem_stream [1, 2])\<lparr>size := None\<rparr>))) = None \<and>
   wavpack_input_set_pos_rel bad_seek (new_WavpackInput ((mem_stream [1, 2])\<lparr>size := None\<rparr>)) (- 1) SEEK_END
     = Inr (new_WavpackInput ((mem_stream [1, 2])\<lparr>size := None\<rparr>), - 1) \<and>
   wavpack_input_set_pos_rel bad_seek (new_WavpackInput (mem_stream [1, 2])) (- 1) SEEK_END
     = Inl OtherException"
proof -
  have a: "size (istream (new_WavpackInput ((mem_stream [1, 2])\<lparr>size := None\<rparr>))) = None"
    by (simp add: new_WavpackInput_def)
  have c: "wavpack_input_set_pos_rel bad_seek (new_WavpackInput (mem_stream [1, 2])) (- 1) SEEK_END
     = Inl OtherException"
    by (simp add: wavpack_input_set_pos_rel_def set_pos_rel_offset_def try_LockSeek_def
        bad_seek_def SEEK_END_def SEEK_SET_def SEEK_CUR_def KnownSize_def new_WavpackInput_def
        mem_stream_def)
  from set_pos_rel_end_unknown_size [OF a, of bad_seek "- 1"] a c show ?thesis by simp
qed

text \<open>
  C5. The callbacks catch \<^verbatim>\<open>std::runtime_error\<close> only. A seek that throws an exception
  of another class is not caught: it leaves \<^verbatim>\<open>wavpack_input_set_pos_abs\<close> and
  \<^verbatim>\<open>wavpack_input_set_pos_rel\<close> and reaches the library.
\<close>

theorem seek_exception_escapes:
  "bad_seek (mem_stream []) 0 = (mem_stream [], Some OtherException) \<and>
   wavpack_input_set_pos_abs bad_seek (new_WavpackInput (mem_stream [])) 0 = Inl OtherException \<and>
   wavpack_input_set_pos_rel bad_seek (new_WavpackInput (mem_stream [])) 0 SEEK_SET = Inl OtherException"
  by (simp add: bad_seek_def wavpack_input_set_pos_abs_def wavpack_input_set_pos_rel_def
      set_pos_rel_offset_def try_LockSeek_def new_WavpackInput_def)

text \<open>
  C5, as amended. What a seek callback does with an exception depends on its class. When
  the seek it issues throws a \<^verbatim>\<open>std::runtime_error\<close>, the callback catches it and
  returns \<open>-1\<close>; when the seek throws an exception of any other class, the callback does
  not catch it and the exception leaves the callback. This holds for
  \<^verbatim>\<open>wavpack_input_set_pos_abs\<close>, whose seek goes to \<open>ucast pos\<close>, and for
  \<^verbatim>\<open>wavpack_input_set_pos_rel\<close>, whose seek goes to the target its \<^verbatim>\<open>switch\<close> computes.
\<close>

theorem seek_catches_runtime_error_only:
  "(LockSeek (istream wpi) target = (s', Some (RuntimeError m)) \<longrightarrow>
      (ucast pos = target \<longrightarrow>
         wavpack_input_set_pos_abs LockSeek wpi pos = Inr (wpi\<lparr>istream := s'\<rparr>, - 1)) \<and>
      (set_pos_rel_offset (istream wpi) delta mode = Some target \<longrightarrow>
         wavpack_input_set_pos_rel LockSeek wpi delta mode = Inr (wpi\<lparr>istream := s'\<rparr>, - 1))) \<and>
   (LockSeek (istream wpi) target = (s', Some OtherException) \<longrightarrow>
      (ucast pos = target \<longrightarrow>
         wavpack_input_set_pos_abs LockSeek wpi pos = Inl OtherException) \<and>
      (set_pos_rel_offset (istream wpi) delta mode = Some target \<longrightarrow>
         wavpack_input_set_pos_rel LockSeek wpi delta mode = Inl OtherException))"
  by (simp add: wavpack_input_set_pos_abs_def wavpack_input_set_pos_rel_def try_LockSeek_def)

theorem seek_catches_runtime_error_only_witness:
  "mem_seek (mem_stream [1, 2]) 7 = (mem_stream [1, 2], Some (RuntimeError ''seek failed'')) \<and>
   wavpack_input_set_pos_abs mem_seek (new_WavpackInput (mem_stream [1, 2])) 7
     = Inr (new_WavpackInput (mem_stream [1, 2]), - 1) \<and>
   set_pos_rel_offset (mem_stream [1, 2]) 5 SEEK_END = Some 7 \<and>
   wavpack_input_set_pos_rel mem_seek (new_WavpackInput (mem_stream [1, 2])) 5 SEEK_END
     = Inr (new_WavpackInput (mem_stream [1, 2]), - 1) \<and>
   bad_seek (mem_stream [1, 2]) 7 = (mem_stream [1, 2], Some OtherException) \<and>
   wavpack_input_set_pos_abs bad_seek (new_WavpackInput (mem_stream [1, 2])) 7
     = Inl OtherException \<and>
   wavpack_input_set_pos_rel bad_seek (new_WavpackInput (mem_stream [1, 2])) 5 SEEK_END
     = Inl OtherException"
proof -
  have a: "mem_seek (istream (new_WavpackInput (mem_stream [1, 2]))) 7
             = (mem_stream [1, 2], Some (RuntimeError ''seek failed''))"
    by (simp add: mem_seek_def mem_stream_def new_WavpackInput_def)
  have a': "bad_seek (istream (new_WavpackInput (mem_stream [1, 2]))) 7
             = (mem_stream [1, 2], Some OtherException)"
    by (simp add: bad_seek_def new_WavpackInput_def)
  have b: "set_pos_rel_offset (istream (new_WavpackInput (mem_stream [1, 2]))) 5 SEEK_END = Some 7"
    by (simp add: set_pos_rel_offset_def SEEK_END_def SEEK_SET_def SEEK_CUR_def KnownSize_def
        GetSize_def mem_stream_def new_WavpackInput_def)
  have c: "(ucast (7 :: 32 word) :: 64 word) = 7" by simp
  from seek_catches_runtime_error_only [where LockSeek = mem_seek
      and wpi = "new_WavpackInput (mem_stream [1, 2])" and target = 7 and pos = 7 and delta = 5
      and mode = SEEK_END and s' = "mem_stream [1, 2]" and m = "''seek failed''"]
    seek_catches_runtime_error_only [where LockSeek = bad_seek
      and wpi = "new_WavpackInput (mem_stream [1, 2])" and target = 7 and pos = 7 and delta = 5
      and mode = SEEK_END and s' = "mem_stream [1, 2]"]
    a a' b c
  show ?thesis
    by (simp add: new_WavpackInput_def)
qed

subsection \<open>Facts about traces and about one turn of the decode loop\<close>

lemma trace_emit: "trace (emit e s) = trace s @ [e]"
  by (simp add: emit_def)

lemma emit_fields:
  "batches (emit e s) = batches s" "replies (emit e s) = replies s"
  "instant_bitrate (emit e s) = instant_bitrate s"
  by (simp_all add: emit_def)

lemma seek_command_fields:
  "batches (seek_command c s) = batches s" "replies (seek_command c s) = replies s"
  by (simp_all add: seek_command_def emit_fields)

lemma submits_append: "submits (t @ [e]) = submits t + (if is_SubmitData e then 1 else 0)"
  by (simp add: submits_def)

lemma submits_emit:
  "submits (trace (emit e s)) = submits (trace s) + (if is_SubmitData e then 1 else 0)"
  by (simp add: trace_emit submits_append)

lemma submits_seek_command: "submits (trace (seek_command c s)) = submits (trace s)"
  by (simp add: seek_command_def submits_emit is_SubmitData_def)

lemma zip_pad:
  "length bs \<le> length xs + k \<Longrightarrow> length bs \<le> length xs + m
    \<Longrightarrow> zip (xs @ replicate k x) bs = zip (xs @ replicate m x) bs"
proof (induction bs arbitrary: xs k m)
  case Nil
  then show ?case by simp
next
  case (Cons b bs)
  show ?case
  proof (cases xs)
    case Nil
    with Cons.prems obtain k' m' where km: "k = Suc k'" "m = Suc m'"
      by (cases k; cases m) auto
    from Cons.prems Nil km have "length bs \<le> length ([] :: 'b list) + k'"
      and "length bs \<le> length ([] :: 'b list) + m'" by simp_all
    from Cons.IH [OF this] show ?thesis using Nil km by simp
  next
    case (Cons y ys)
    from Cons.prems Cons have "length bs \<le> length ys + k" and "length bs \<le> length ys + m"
      by simp_all
    from Cons.IH [OF this] show ?thesis using Cons by simp
  qed
qed

lemma loop_STOP: "wavpack_decode_loop c f n s STOP = s"
  by (subst wavpack_decode_loop.simps) simp

lemma loop_end:
  "cmd \<noteq> STOP \<Longrightarrow> batches s = [] \<or> (\<exists>bs. batches s = 0 # bs)
    \<Longrightarrow> submits (trace (wavpack_decode_loop c f n s cmd)) = submits (trace s)"
  by (subst wavpack_decode_loop.simps)
    (auto simp: WavpackUnpackSamples_def seek_command_fields submits_emit submits_seek_command
      is_SubmitData_def)

lemma loop_step:
  "cmd \<noteq> STOP \<Longrightarrow> batches s = b # bs \<Longrightarrow> b \<noteq> 0
    \<Longrightarrow> \<exists>s3. wavpack_decode_loop c f n s cmd
           = wavpack_decode_loop c f n s3 (case replies s of [] \<Rightarrow> NONE | r # rs \<Rightarrow> r) \<and>
         batches s3 = bs \<and> replies s3 = tl (replies s) \<and>
         submits (trace s3) = Suc (submits (trace s))"
  by (subst wavpack_decode_loop.simps)
    (auto simp: WavpackUnpackSamples_def SubmitData_def seek_command_fields emit_fields
      submits_emit submits_seek_command is_SubmitData_def split: list.splits)

lemma loop_submits:
  "batches s = bs \<Longrightarrow>
   submits (trace (wavpack_decode_loop c f n s cmd))
     = submits (trace s) +
       length (takeWhile (\<lambda>(c, b). c \<noteq> STOP \<and> b \<noteq> 0)
         (zip (cmd # replies s @ replicate (length bs) NONE) bs))"
proof (induction bs arbitrary: s cmd)
  case Nil
  then show ?case by (cases "cmd = STOP") (simp_all add: loop_STOP loop_end)
next
  case (Cons b bs)
  show ?case
  proof (cases "cmd = STOP \<or> b = 0")
    case True
    then show ?thesis using Cons.prems by (cases "cmd = STOP") (auto simp: loop_STOP loop_end)
  next
    case False
    then have c: "cmd \<noteq> STOP" and b: "b \<noteq> 0" by simp_all
    from loop_step [OF c Cons.prems b, of c f n]
    obtain s3 where l: "wavpack_decode_loop c f n s cmd
           = wavpack_decode_loop c f n s3 (case replies s of [] \<Rightarrow> NONE | r # rs \<Rightarrow> r)"
      and bs3: "batches s3 = bs" and r3: "replies s3 = tl (replies s)"
      and t3: "submits (trace s3) = Suc (submits (trace s))" by blast
    have z: "zip ((case replies s of [] \<Rightarrow> NONE | r # rs \<Rightarrow> r) # tl (replies s) @ replicate (length bs) NONE) bs
        = zip (replies s @ replicate (Suc (length bs)) NONE) bs"
    proof (cases "replies s")
      case Nil
      then show ?thesis by simp
    next
      case (Cons r rs)
      have "zip ((r # rs) @ replicate (length bs) NONE) bs
          = zip ((r # rs) @ replicate (Suc (length bs)) NONE) bs"
        by (rule zip_pad) simp_all
      then show ?thesis using Cons by simp
    qed
    show ?thesis
      unfolding l Cons.IH [OF bs3] r3 t3 z using c b by simp
  qed
qed


lemma turn_commands_Nil: "batches s = [] \<Longrightarrow> turn_commands cmd s = [cmd]"
  by (simp add: turn_commands_def)

lemma take_Cons_replicate: "k \<le> n \<Longrightarrow> take k (x # replicate n x) = replicate k x"
proof -
  assume "k \<le> n"
  then have "take k (replicate (Suc n) x) = replicate k x"
    by (simp only: take_replicate) (simp add: min_def)
  then show ?thesis by simp
qed

lemma turn_commands_Cons:
  assumes "batches s = b # bs" and "batches s3 = bs" and "replies s3 = tl (replies s)"
  shows "turn_commands cmd s
      = cmd # turn_commands (case replies s of [] \<Rightarrow> NONE | r # rs \<Rightarrow> r) s3"
proof (cases "replies s")
  case Nil
  then show ?thesis using assms by (simp add: turn_commands_def)
next
  case (Cons r rs)
  then show ?thesis using assms by (simp add: turn_commands_def take_Cons_replicate)
qed

lemma trace_seek_command: "trace (seek_command c s) = trace s @ seek_events c s"
  by (simp add: seek_command_def seek_events_def trace_emit)


lemma events_same_session:
  "seek_events c (s\<lparr>batches := B, replies := R, trace := T\<rparr>) = seek_events c s"
  "turn_events c f n (s\<lparr>batches := B, replies := R, trace := T\<rparr>) turn = turn_events c f n s turn"
  "last_turn_events c n (s\<lparr>batches := B, replies := R, trace := T\<rparr>) cmd
     = last_turn_events c n s cmd"
  by (simp_all add: seek_events_def turn_events_def last_turn_events_def)

lemma turn_events_same_session:
  "turn_events c f n (s\<lparr>batches := B, replies := R, trace := T\<rparr>) = turn_events c f n s"
  by (rule ext) (simp add: events_same_session)

lemma replies_Nil_update:
  "replies s = [] \<Longrightarrow> s\<lparr>batches := B, replies := [], trace := T\<rparr> = s\<lparr>batches := B, trace := T\<rparr>"
  by (cases s) simp

lemma loop_last_turn:
  assumes "cmd \<noteq> STOP" and "batches s = [] \<or> (\<exists>bs. batches s = 0 # bs)"
  shows "wavpack_decode_loop c f n s cmd
      = s\<lparr>batches := tl (batches s), trace := trace s @ last_turn_events c n s cmd\<rparr>"
  using assms
  by (subst wavpack_decode_loop.simps)
    (auto simp: WavpackUnpackSamples_def seek_command_def emit_def last_turn_events_def
      seek_events_def)

lemma loop_full_turn:
  assumes "cmd \<noteq> STOP" and "batches s = b # bs" and "b \<noteq> 0"
  shows "wavpack_decode_loop c f n s cmd
      = wavpack_decode_loop c f n
          (s\<lparr>batches := bs, replies := tl (replies s),
             trace := trace s @ turn_events c f n s (cmd, b)\<rparr>)
          (case replies s of [] \<Rightarrow> NONE | r # rs \<Rightarrow> r)"
  using assms
  by (subst wavpack_decode_loop.simps)
    (auto simp: WavpackUnpackSamples_def SubmitData_def seek_command_def emit_def
      turn_events_def seek_events_def replies_Nil_update split: list.splits)


lemma full_turns_stop:
  assumes "cmd = STOP \<or> batches s = [] \<or> (\<exists>bs. batches s = 0 # bs)"
  shows "full_turns cmd s = []" and "turn_commands cmd s ! 0 = cmd"
  using assms by (cases "batches s"; auto simp: full_turns_def turn_commands_def)+

lemma full_turns_Cons:
  assumes "cmd \<noteq> STOP" and "batches s = b # bs" and "b \<noteq> 0"
    and "batches s3 = bs" and "replies s3 = tl (replies s)"
  shows "full_turns cmd s = (cmd, b) # full_turns (case replies s of [] \<Rightarrow> NONE | r # rs \<Rightarrow> r) s3"
  unfolding full_turns_def turn_commands_Cons [OF assms(2,4,5)] using assms(1,2,3,4) by simp

lemma loop_closed_form:
  "batches s = bs \<Longrightarrow>
   wavpack_decode_loop c f n s cmd
     = s\<lparr>batches :=
            drop (length (full_turns cmd s) +
                  (if turn_commands cmd s ! length (full_turns cmd s) = STOP then 0 else 1))
              (batches s),
          replies := drop (length (full_turns cmd s)) (replies s),
          trace := trace s @ concat (map (turn_events c f n s) (full_turns cmd s)) @
                   last_turn_events c n s (turn_commands cmd s ! length (full_turns cmd s))\<rparr>"
proof (induction bs arbitrary: s cmd)
  case Nil
  show ?case
  proof (cases "cmd = STOP")
    case True
    then show ?thesis
      by (simp add: loop_STOP full_turns_stop last_turn_events_def)
  next
    case False
    then show ?thesis using Nil
      by (simp add: loop_last_turn full_turns_stop)
  qed
next
  case (Cons b bs)
  show ?case
  proof (cases "cmd = STOP")
    case True
    then show ?thesis
      by (simp add: loop_STOP full_turns_stop last_turn_events_def)
  next
    case False
    show ?thesis
    proof (cases "b = 0")
      case True
      then show ?thesis using False Cons.prems
        by (simp add: loop_last_turn full_turns_stop)
    next
      case nz: False
      let ?cmd' = "case replies s of [] \<Rightarrow> NONE | r # rs \<Rightarrow> r"
      let ?s3 = "s\<lparr>batches := bs, replies := tl (replies s),
             trace := trace s @ turn_events c f n s (cmd, b)\<rparr>"
      have b3: "batches ?s3 = bs" and r3: "replies ?s3 = tl (replies s)" by simp_all
      have ft: "full_turns cmd s = (cmd, b) # full_turns ?cmd' ?s3"
        by (rule full_turns_Cons [OF False Cons.prems nz b3 r3])
      have tc: "turn_commands cmd s = cmd # turn_commands ?cmd' ?s3"
        by (rule turn_commands_Cons [OF Cons.prems b3 r3])
      show ?thesis
        unfolding loop_full_turn [OF False Cons.prems nz] Cons.IH [OF b3]
        unfolding ft tc
        using Cons.prems by (simp add: events_same_session turn_events_same_session drop_Suc)
    qed
  qed
qed


lemma loop_filter:
  assumes "\<And>n. \<not> P (E_WavpackUnpackSamples n)" and "\<And>l b. \<not> P (E_SubmitData l b)"
    and "\<And>w. \<not> P (E_WavpackSeekSample w)" and "\<not> P E_CommandFinished" and "\<not> P E_SeekError"
  shows "filter P (trace (wavpack_decode_loop c f n s cmd)) = filter P (trace s)"
proof (induction c f n s cmd rule: wavpack_decode_loop.induct)
  case (1 can_seek output_sample_size samples_requested s cmd)
  have seek: "filter P (trace (seek_command can_seek s)) = filter P (trace s)"
    using assms by (simp add: seek_command_def trace_emit)
  show ?case
  proof (cases "cmd = STOP")
    case True
    then show ?thesis by (simp add: loop_STOP)
  next
    case False
    obtain samples_got s2 where u: "WavpackUnpackSamples
        (if cmd = SEEK then seek_command can_seek s else s) samples_requested = (samples_got, s2)"
      by (cases "WavpackUnpackSamples (if cmd = SEEK then seek_command can_seek s else s) samples_requested")
    have t2: "filter P (trace s2) = filter P (trace s)"
      using u seek assms(1)
      by (auto simp: WavpackUnpackSamples_def trace_emit emit_def split: list.splits if_splits)
    show ?thesis
    proof (cases "samples_got = 0")
      case True
      then show ?thesis using False u t2 by (subst wavpack_decode_loop.simps) simp
    next
      case nz: False
      obtain cmd' s3 where sd: "SubmitData s2 (samples_got * output_sample_size) (instant_bitrate s2)
          = (cmd', s3)"
        by (cases "SubmitData s2 (samples_got * output_sample_size) (instant_bitrate s2)")
      have t3: "filter P (trace s3) = filter P (trace s2)"
        using sd assms(2) by (auto simp: SubmitData_def trace_emit emit_def split: list.splits)
      have "wavpack_decode_loop can_seek output_sample_size samples_requested s cmd
          = wavpack_decode_loop can_seek output_sample_size samples_requested s3 cmd'"
        using False u nz sd by (subst wavpack_decode_loop.simps) simp
      moreover have "filter P (trace (wavpack_decode_loop can_seek output_sample_size samples_requested s3 cmd'))
          = filter P (trace s3)"
        using "1.IH" [OF False u [symmetric] nz sd [symmetric]] .
      ultimately show ?thesis using t2 t3 by simp
    qed
  qed
qed

lemma decode_filter:
  assumes "\<And>n. \<not> P (E_WavpackUnpackSamples n)" and "\<And>l b. \<not> P (E_SubmitData l b)"
    and "\<And>w. \<not> P (E_WavpackSeekSample w)" and "\<not> P E_CommandFinished" and "\<not> P E_SeekError"
    and "\<And>a c d. \<not> P (E_Ready a c d)"
  shows "filter P (trace (snd (wavpack_decode c s))) = filter P (trace s)"
  using assms(6)
  by (auto simp: wavpack_decode_def Let_def loop_filter [OF assms(1-5)] trace_emit
      split: sum.splits)

lemma opens_decode: "opens (trace (snd (wavpack_decode c s))) = opens (trace s)"
  unfolding opens_def by (rule arg_cong [where f = length], rule decode_filter)
    (simp_all add: handle_opened_def)

lemma closes_decode: "closes (trace (snd (wavpack_decode c s))) = closes (trace s)"
  unfolding closes_def by (rule arg_cong [where f = length], rule decode_filter) simp_all

lemma opens_emit:
  "opens (trace (emit e s)) = opens (trace s) + (if handle_opened e then 1 else 0)"
  by (simp add: opens_def trace_emit)

lemma closes_emit:
  "closes (trace (emit e s)) = closes (trace s) + (if e = E_WavpackCloseFile then 1 else 0)"
  by (simp add: closes_def trace_emit)


lemma last_emit: "last (trace (emit e s)) = e"
  by (simp add: trace_emit)

lemma check_audio_format_emit: "check_audio_format (emit e s) = check_audio_format s"
  by (simp add: emit_def)

lemma check_audio_format_open_wvc:
  "check_audio_format (snd (wavpack_open_wvc u s)) = check_audio_format s"
  by (simp add: wavpack_open_wvc_def check_audio_format_emit
      split: option.splits sum.splits exception.splits)

lemma AtScopeExit_runs:
  assumes "fst rest = Inr v \<or> fst rest = Inl (Thrown e)"
  shows "AtScopeExit block rest = (fst rest, block (snd rest))"
  using assms by (cases rest) (auto simp: AtScopeExit_def)

lemma decode_returns_or_throws:
  assumes "\<forall>rate format channels a.
      check_audio_format s rate format channels = Inr a \<longrightarrow> 0 < af_channels a"
  shows "fst (wavpack_decode c s) = Inr () \<or> (\<exists>e. fst (wavpack_decode c s) = Inl (Thrown e))"
proof (cases "check_audio_format s (sample_rate s)
    (wavpack_bits_to_sample_format (mode_float s) (build_config s = DSD_native \<and> qmode_dsd s)
       (bytes_per_sample s)) (reduced_channels s)")
  case (Inl e)
  then show ?thesis by (simp add: wavpack_decode_def Let_def)
next
  case (Inr a)
  from assms this have "af_channels a \<noteq> 0" by fastforce
  then show ?thesis using Inr by (simp add: wavpack_decode_def Let_def)
qed

lemma decode_then_close:
  assumes "\<forall>rate format channels a.
      check_audio_format s rate format channels = Inr a \<longrightarrow> 0 < af_channels a"
  shows "snd (AtScopeExit WavpackCloseFile (wavpack_decode c s))
      = WavpackCloseFile (snd (wavpack_decode c s))"
proof -
  from decode_returns_or_throws [where s = s and c = c, OF assms]
  obtain e where "fst (wavpack_decode c s) = Inr () \<or> fst (wavpack_decode c s) = Inl (Thrown e)"
    by blast
  from AtScopeExit_runs [OF this] show ?thesis by simp
qed

lemma filedecode_handle:
  assumes "trace s = []"
    and ch: "\<forall>rate format channels a.
      check_audio_format s rate format channels = Inr a \<longrightarrow> 0 < af_channels a"
  shows "opens (trace (snd (wavpack_filedecode path s))) \<le> 1 \<and>
     closes (trace (snd (wavpack_filedecode path s)))
       = opens (trace (snd (wavpack_filedecode path s))) \<and>
     (opens (trace (snd (wavpack_filedecode path s))) = 1 \<longrightarrow>
        last (trace (snd (wavpack_filedecode path s))) = E_WavpackCloseFile)"
proof (cases "open_error s")
  case (Some e)
  have "opens (trace s) = 0" and "closes (trace s) = 0"
    using assms(1) by (simp_all add: opens_def closes_def)
  then show ?thesis using Some
    by (simp add: wavpack_filedecode_def WavpackOpenInput_def opens_emit closes_emit
        handle_opened_def)
next
  case None
  let ?s1 = "emit (E_WavpackOpenFileInput path
      (OPEN_DSD_FLAG (build_config s) \<union> {OPEN_NORMALIZE} \<union> {OPEN_WVC}) True) s"
  have ch1: "\<forall>rate format channels a.
      check_audio_format ?s1 rate format channels = Inr a \<longrightarrow> 0 < af_channels a"
    using ch by (simp add: check_audio_format_emit)
  have "snd (wavpack_filedecode path s)
      = snd (AtScopeExit WavpackCloseFile (wavpack_decode True ?s1))"
    using None by (simp add: wavpack_filedecode_def WavpackOpenInput_def)
  then have r: "snd (wavpack_filedecode path s) = WavpackCloseFile (snd (wavpack_decode True ?s1))"
    using decode_then_close [where s = ?s1 and c = True, OF ch1] by simp
  have z: "opens (trace s) = 0" "closes (trace s) = 0"
    using assms(1) by (simp_all add: opens_def closes_def)
  show ?thesis
    unfolding r WavpackCloseFile_def
    by (simp add: opens_emit closes_emit last_emit opens_decode closes_decode z handle_opened_def)
qed

lemma scan_file_handle:
  assumes "trace s = []"
  shows "opens (trace (snd (wavpack_scan_file path s))) \<le> 1 \<and>
     closes (trace (snd (wavpack_scan_file path s)))
       = opens (trace (snd (wavpack_scan_file path s))) \<and>
     (opens (trace (snd (wavpack_scan_file path s))) = 1 \<longrightarrow>
        last (trace (snd (wavpack_scan_file path s))) = E_WavpackCloseFile)"
proof -
  have "opens (trace s) = 0" and "closes (trace s) = 0"
    using assms by (simp_all add: opens_def closes_def)
  then show ?thesis
    by (simp add: wavpack_scan_file_def WavpackOpenInput_def WavpackCloseFile_def Let_def
        AtScopeExit_def opens_emit closes_emit last_emit handle_opened_def split: option.splits)
qed

lemma open_wvc_trace:
  "opens (trace (snd (wavpack_open_wvc u s))) = opens (trace s) \<and>
   closes (trace (snd (wavpack_open_wvc u s))) = closes (trace s)"
  by (simp add: wavpack_open_wvc_def opens_emit closes_emit handle_opened_def
      split: option.splits sum.splits exception.splits)

lemma streamdecode_handle:
  assumes "trace s = []"
    and ch: "\<forall>rate format channels a.
      check_audio_format s rate format channels = Inr a \<longrightarrow> 0 < af_channels a"
  shows "opens (trace (snd (wavpack_streamdecode is' s))) \<le> 1 \<and>
     closes (trace (snd (wavpack_streamdecode is' s)))
       = opens (trace (snd (wavpack_streamdecode is' s))) \<and>
     (opens (trace (snd (wavpack_streamdecode is' s))) = 1 \<longrightarrow>
        last (trace (snd (wavpack_streamdecode is' s))) = E_WavpackCloseFile)"
proof -
  obtain r s1 where w: "wavpack_open_wvc (uri is') s = (r, s1)"
    by (cases "wavpack_open_wvc (uri is') s")
  have o1: "opens (trace s1) = 0" and c1: "closes (trace s1) = 0"
    using open_wvc_trace [of "uri is'" s] w assms(1) by (simp_all add: opens_def closes_def)
  have f1: "check_audio_format s1 = check_audio_format s"
    using check_audio_format_open_wvc [of "uri is'" s] w by simp
  show ?thesis
  proof (cases r)
    case (Inl f)
    then show ?thesis using w o1 c1 by (simp add: wavpack_streamdecode_def)
  next
    case (Inr is_wvc)
    show ?thesis
    proof (cases is_wvc)
      case (Some companion)
      then show ?thesis using w Inr o1 c1 by (simp add: wavpack_streamdecode_def)
    next
      case None
      show ?thesis
      proof (cases "open_error s1")
        case (Some e)
        then show ?thesis using w Inr None o1 c1
          by (simp add: wavpack_streamdecode_def WavpackOpenInput_reader_def opens_emit
              closes_emit handle_opened_def Let_def)
      next
        case no_error: None
        let ?s2 = "emit (E_WavpackOpenFileInputEx False
            (if \<not> IsSeekable is'
             then OPEN_DSD_FLAG (build_config s) \<union> {OPEN_NORMALIZE} \<union> {OPEN_STREAMING}
             else OPEN_DSD_FLAG (build_config s) \<union> {OPEN_NORMALIZE}) True) s1"
        have ch2: "\<forall>rate format channels a.
            check_audio_format ?s2 rate format channels = Inr a \<longrightarrow> 0 < af_channels a"
          using ch f1 by (simp add: check_audio_format_emit)
        have "snd (wavpack_streamdecode is' s)
            = snd (AtScopeExit WavpackCloseFile (wavpack_decode (IsSeekable is') ?s2))"
          using w Inr None no_error
          by (simp add: wavpack_streamdecode_def WavpackOpenInput_reader_def Let_def Un_commute)
        then have r: "snd (wavpack_streamdecode is' s)
            = WavpackCloseFile (snd (wavpack_decode (IsSeekable is') ?s2))"
          using decode_then_close [where s = ?s2 and c = "IsSeekable is'", OF ch2] by simp
        show ?thesis
          unfolding r WavpackCloseFile_def
          by (simp add: opens_emit closes_emit last_emit opens_decode closes_decode o1 c1
              handle_opened_def)
      qed
    qed
  qed
qed

lemma example_decode_any:
  "wavpack_decode True (example_session\<lparr>command := k, replies := rs\<rparr>)
     = (Inr (), wavpack_decode_loop True 4 512
          (emit example_ready (example_session\<lparr>command := k, replies := rs\<rparr>)) k)"
  by (simp add: wavpack_decode_def example_session_def wavpack_bits_to_sample_format_def
      GetDuration_def emit_def Let_def example_ready_def)

lemma example_bad_format:
  "wavpack_decode c (emit e (example_session\<lparr>bytes_per_sample := 5\<rparr>))
     = (Inl (Thrown (RuntimeError ''Invalid sample format'')), emit e (example_session\<lparr>bytes_per_sample := 5\<rparr>))"
  by (simp add: wavpack_decode_def example_session_def wavpack_bits_to_sample_format_def emit_def Let_def)

subsection \<open>The decode loop\<close>

text \<open>
  C7. The decode loop stops exactly when the library returns zero samples or the host
  signals stop. For every session and every command at entry, the session the loop
  returns is the one it was given after the full turns and the turn that ends it: one
  entry of \<open>replies\<close> is used up by each full turn, one batch by each full turn and one
  more by the last turn unless its command is \<^verbatim>\<open>STOP\<close>, and the calls made are those of
  the full turns, in order, followed by those of the last turn, and no other. In
  particular, entered at \<^verbatim>\<open>STOP\<close> the loop returns the session as it is, with no call
  made; when the command is not \<^verbatim>\<open>STOP\<close> and the library returns 0 (or has no batch
  left), only the seek, if asked for, and that one unpack call are added; and the number
  of \<^verbatim>\<open>SubmitData\<close> calls is the number of full turns. With the batches 256, 256, 0 and
  a host that never stops, \<^verbatim>\<open>wavpack_decode\<close> submits exactly twice and returns without
  an error; with a host that answers the first submit with \<^verbatim>\<open>STOP\<close> it submits once and
  leaves the other batches with the library.
\<close>

theorem decode_loop_stops:
  "wavpack_decode_loop can_seek output_sample_size samples_requested s cmd
     = s\<lparr>batches :=
            drop (length (full_turns cmd s) +
                  (if turn_commands cmd s ! length (full_turns cmd s) = STOP then 0 else 1))
              (batches s),
          replies := drop (length (full_turns cmd s)) (replies s),
          trace := trace s @
            concat (map (turn_events can_seek output_sample_size samples_requested s)
                      (full_turns cmd s)) @
            last_turn_events can_seek samples_requested s
              (turn_commands cmd s ! length (full_turns cmd s))\<rparr> \<and>
   wavpack_decode_loop can_seek output_sample_size samples_requested s STOP = s \<and>
   (cmd \<noteq> STOP \<and> (batches s = [] \<or> hd (batches s) = 0) \<longrightarrow>
      wavpack_decode_loop can_seek output_sample_size samples_requested s cmd
        = s\<lparr>batches := tl (batches s),
             trace := trace s @ last_turn_events can_seek samples_requested s cmd\<rparr>) \<and>
   submits (trace (wavpack_decode_loop can_seek output_sample_size samples_requested s cmd))
     = submits (trace s) +
       length (takeWhile (\<lambda>(c, b). c \<noteq> STOP \<and> b \<noteq> 0)
         (zip (cmd # replies s @ replicate (length (batches s)) NONE) (batches s)))"
proof (intro conjI impI)
  show "wavpack_decode_loop can_seek output_sample_size samples_requested s cmd
     = s\<lparr>batches :=
            drop (length (full_turns cmd s) +
                  (if turn_commands cmd s ! length (full_turns cmd s) = STOP then 0 else 1))
              (batches s),
          replies := drop (length (full_turns cmd s)) (replies s),
          trace := trace s @
            concat (map (turn_events can_seek output_sample_size samples_requested s)
                      (full_turns cmd s)) @
            last_turn_events can_seek samples_requested s
              (turn_commands cmd s ! length (full_turns cmd s))\<rparr>"
    by (rule loop_closed_form) simp
  show "wavpack_decode_loop can_seek output_sample_size samples_requested s STOP = s"
    by (rule loop_STOP)
  show "submits (trace (wavpack_decode_loop can_seek output_sample_size samples_requested s cmd))
     = submits (trace s) +
       length (takeWhile (\<lambda>(c, b). c \<noteq> STOP \<and> b \<noteq> 0)
         (zip (cmd # replies s @ replicate (length (batches s)) NONE) (batches s)))"
    by (rule loop_submits) simp
next
  assume a: "cmd \<noteq> STOP \<and> (batches s = [] \<or> hd (batches s) = 0)"
  then have "batches s = [] \<or> (\<exists>bs. batches s = 0 # bs)"
    by (cases "batches s") auto
  with a show "wavpack_decode_loop can_seek output_sample_size samples_requested s cmd
        = s\<lparr>batches := tl (batches s),
             trace := trace s @ last_turn_events can_seek samples_requested s cmd\<rparr>"
    by (simp add: loop_last_turn)
qed

theorem decode_loop_stops_witness:
  "batches example_session = [256, 256, 0] \<and>
   fst (wavpack_decode True (example_session\<lparr>command := NONE, replies := []\<rparr>)) = Inr () \<and>
   trace (snd (wavpack_decode True (example_session\<lparr>command := NONE, replies := []\<rparr>)))
     = [example_ready,
        E_WavpackUnpackSamples 512, E_SubmitData 1024 900,
        E_WavpackUnpackSamples 512, E_SubmitData 1024 900,
        E_WavpackUnpackSamples 512] \<and>
   submits (trace (snd (wavpack_decode True
       (example_session\<lparr>command := NONE, replies := []\<rparr>)))) = 2 \<and>
   trace (snd (wavpack_decode True (example_session\<lparr>command := NONE, replies := [STOP]\<rparr>)))
     = [example_ready, E_WavpackUnpackSamples 512, E_SubmitData 1024 900] \<and>
   batches (snd (wavpack_decode True (example_session\<lparr>command := NONE, replies := [STOP]\<rparr>)))
     = [256, 0] \<and>
   trace (snd (wavpack_decode True (example_session\<lparr>command := STOP, replies := []\<rparr>)))
     = [example_ready] \<and>
   batches (snd (wavpack_decode True (example_session\<lparr>command := STOP, replies := []\<rparr>)))
     = [256, 256, 0] \<and>
   trace (snd (wavpack_decode True (example_session\<lparr>command := SEEK, replies := [NONE, SEEK]\<rparr>)))
     = [example_ready,
        E_WavpackSeekSample 0, E_CommandFinished,
        E_WavpackUnpackSamples 512, E_SubmitData 1024 900,
        E_WavpackUnpackSamples 512, E_SubmitData 1024 900,
        E_WavpackSeekSample 0, E_CommandFinished,
        E_WavpackUnpackSamples 512]"
proof -
  note ev = full_turns_def turn_commands_def turn_events_def last_turn_events_def seek_events_def
    example_session_def emit_def submits_def is_SubmitData_def example_ready_def
  note closed = decode_loop_stops [THEN conjunct1]
  have 1: "trace (wavpack_decode_loop True 4 512
        (emit example_ready (example_session\<lparr>command := NONE, replies := []\<rparr>)) NONE)
      = [example_ready, E_WavpackUnpackSamples 512, E_SubmitData 1024 900,
         E_WavpackUnpackSamples 512, E_SubmitData 1024 900, E_WavpackUnpackSamples 512]"
    by (subst closed) (simp add: ev)
  have 2: "trace (wavpack_decode_loop True 4 512
        (emit example_ready (example_session\<lparr>command := NONE, replies := [STOP]\<rparr>)) NONE)
      = [example_ready, E_WavpackUnpackSamples 512, E_SubmitData 1024 900]"
    and 3: "batches (wavpack_decode_loop True 4 512
        (emit example_ready (example_session\<lparr>command := NONE, replies := [STOP]\<rparr>)) NONE)
      = [256, 0]"
    by (subst closed, simp add: ev)+
  have 4: "trace (wavpack_decode_loop True 4 512
        (emit example_ready (example_session\<lparr>command := STOP, replies := []\<rparr>)) STOP)
      = [example_ready]"
    and 5: "batches (wavpack_decode_loop True 4 512
        (emit example_ready (example_session\<lparr>command := STOP, replies := []\<rparr>)) STOP)
      = [256, 256, 0]"
    by (subst closed, simp add: ev)+
  have 6: "trace (wavpack_decode_loop True 4 512
        (emit example_ready (example_session\<lparr>command := SEEK, replies := [NONE, SEEK]\<rparr>)) SEEK)
      = [example_ready, E_WavpackSeekSample 0, E_CommandFinished,
         E_WavpackUnpackSamples 512, E_SubmitData 1024 900,
         E_WavpackUnpackSamples 512, E_SubmitData 1024 900,
         E_WavpackSeekSample 0, E_CommandFinished, E_WavpackUnpackSamples 512]"
    by (subst closed) (simp add: ev)
  have 0: "batches example_session = [256, 256, 0]" by (simp add: example_session_def)
  show ?thesis
    unfolding example_decode_any using 0 1 2 3 4 5 6
    by (simp add: submits_def is_SubmitData_def example_ready_def)
qed

subsection \<open>The library handle\<close>

text \<open>
  C8. In a stream decode, a file decode and a metadata scan, started with an empty trace
  and with any answers of library and host (so on every exit path: normal completion, a
  failed open, an exception from \<^verbatim>\<open>CheckAudioFormat\<close>, a stop command), a handle is
  opened at most once, \<^verbatim>\<open>WavpackCloseFile\<close> is called exactly as often as a handle was
  opened, and when a handle was opened the close is the last call of the session. The
  host's \<^verbatim>\<open>CheckAudioFormat\<close> is taken to accept no format without channels, as it
  validates the channel count; the division by the channel count is then defined.
\<close>

theorem handle_released_exactly_once:
  assumes "trace s = []"
    and "\<forall>rate format channels a.
      check_audio_format s rate format channels = Inr a \<longrightarrow> 0 < af_channels a"
  shows "(opens (trace (snd (wavpack_streamdecode is' s))) \<le> 1 \<and>
          closes (trace (snd (wavpack_streamdecode is' s)))
            = opens (trace (snd (wavpack_streamdecode is' s))) \<and>
          (opens (trace (snd (wavpack_streamdecode is' s))) = 1 \<longrightarrow>
             last (trace (snd (wavpack_streamdecode is' s))) = E_WavpackCloseFile)) \<and>
         (opens (trace (snd (wavpack_filedecode path s))) \<le> 1 \<and>
          closes (trace (snd (wavpack_filedecode path s)))
            = opens (trace (snd (wavpack_filedecode path s))) \<and>
          (opens (trace (snd (wavpack_filedecode path s))) = 1 \<longrightarrow>
             last (trace (snd (wavpack_filedecode path s))) = E_WavpackCloseFile)) \<and>
         (opens (trace (snd (wavpack_scan_file path s))) \<le> 1 \<and>
          closes (trace (snd (wavpack_scan_file path s)))
            = opens (trace (snd (wavpack_scan_file path s))) \<and>
          (opens (trace (snd (wavpack_scan_file path s))) = 1 \<longrightarrow>
             last (trace (snd (wavpack_scan_file path s))) = E_WavpackCloseFile))"
  using streamdecode_handle [where s = s and is' = is', OF assms]
    filedecode_handle [where s = s and path = path, OF assms]
    scan_file_handle [where s = s and path = path, OF assms(1)]
  by blast

theorem handle_released_exactly_once_witness:
  "trace (example_session\<lparr>bytes_per_sample := 5\<rparr>) = [] \<and>
   (\<forall>rate format channels.
      case check_audio_format (example_session\<lparr>bytes_per_sample := 5\<rparr>) rate format channels of
        Inl e \<Rightarrow> True | Inr a \<Rightarrow> 0 < af_channels a) \<and>
   fst (wavpack_filedecode ''a.wv'' (example_session\<lparr>bytes_per_sample := 5\<rparr>))
     = Inl (Thrown (RuntimeError ''Invalid sample format'')) \<and>
   trace (snd (wavpack_filedecode ''a.wv'' (example_session\<lparr>bytes_per_sample := 5\<rparr>)))
     = [E_WavpackOpenFileInput ''a.wv'' {OPEN_NORMALIZE, OPEN_WVC} True, E_WavpackCloseFile] \<and>
   opens (trace (snd (wavpack_filedecode ''a.wv'' (example_session\<lparr>bytes_per_sample := 5\<rparr>)))) = 1 \<and>
   closes (trace (snd (wavpack_filedecode ''a.wv'' (example_session\<lparr>bytes_per_sample := 5\<rparr>)))) = 1 \<and>
   closes (trace (snd (wavpack_streamdecode http_stream (example_session\<lparr>bytes_per_sample := 5\<rparr>))))
     = opens (trace (snd (wavpack_streamdecode http_stream (example_session\<lparr>bytes_per_sample := 5\<rparr>)))) \<and>
   closes (trace (snd (wavpack_scan_file ''a.wv'' (example_session\<lparr>bytes_per_sample := 5\<rparr>))))
     = opens (trace (snd (wavpack_scan_file ''a.wv'' (example_session\<lparr>bytes_per_sample := 5\<rparr>))))"
proof -
  let ?s = "example_session\<lparr>bytes_per_sample := 5\<rparr>"
  have a: "trace ?s = []" by (simp add: example_session_def)
  have o: "WavpackOpenInput ''a.wv'' {OPEN_NORMALIZE, OPEN_WVC} ?s
      = (Inr (), emit (E_WavpackOpenFileInput ''a.wv'' {OPEN_NORMALIZE, OPEN_WVC} True) ?s)"
    by (simp add: WavpackOpenInput_def example_session_def)
  have f: "OPEN_DSD_FLAG (build_config ?s) \<union> {OPEN_NORMALIZE} \<union> {OPEN_WVC}
      = {OPEN_NORMALIZE, OPEN_WVC}"
    by (auto simp: OPEN_DSD_FLAG_def example_session_def)
  have r: "wavpack_filedecode ''a.wv'' ?s
      = (Inl (Thrown (RuntimeError ''Invalid sample format'')),
         WavpackCloseFile (emit (E_WavpackOpenFileInput ''a.wv'' {OPEN_NORMALIZE, OPEN_WVC} True) ?s))"
    unfolding wavpack_filedecode_def f o by (simp add: example_bad_format AtScopeExit_def)
  have t: "trace (snd (wavpack_filedecode ''a.wv'' ?s))
      = [E_WavpackOpenFileInput ''a.wv'' {OPEN_NORMALIZE, OPEN_WVC} True, E_WavpackCloseFile]"
    unfolding r by (simp add: WavpackCloseFile_def trace_emit a)
  have n: "opens (trace (snd (wavpack_filedecode ''a.wv'' ?s))) = 1"
    unfolding t by (simp add: opens_def handle_opened_def)
  have h: "\<forall>rate format channels a.
      check_audio_format ?s rate format channels = Inr a \<longrightarrow> 0 < af_channels a"
    by (auto simp: example_session_def split: if_splits)
  have h': "\<forall>rate format channels.
      case check_audio_format ?s rate format channels of
        Inl e \<Rightarrow> True | Inr a \<Rightarrow> 0 < af_channels a"
    by (simp add: example_session_def)
  from handle_released_exactly_once [where s = ?s and is' = http_stream and path = "''a.wv''",
      OF a h] a r t n h'
  show ?thesis by simp
qed

subsection \<open>The companion stream\<close>

text \<open>
  Without a companion (no URI, \<^verbatim>\<open>OpenUri\<close> throwing a \<^verbatim>\<open>std::runtime_error\<close>, or
  returning null), \<^verbatim>\<open>wavpack_streamdecode\<close> goes on with the seekability of the primary
  stream alone.
\<close>

lemma open_wvc_failure:
  assumes "uri' = None \<or> (\<exists>u m. uri' = Some u \<and> open_uri s u = Inl (RuntimeError m))
      \<or> (\<exists>u. uri' = Some u \<and> open_uri s u = Inr None)"
  shows "fst (wavpack_open_wvc uri' s) = Inr None"
  using assms by (auto simp: wavpack_open_wvc_def)

lemma streamdecode_without_companion:
  assumes "wavpack_open_wvc (uri is') s = (Inr None, s1)"
  shows "wavpack_streamdecode is' s =
     (case WavpackOpenInput_reader (new_WavpackInput is') None
             (if \<not> IsSeekable is'
              then OPEN_DSD_FLAG (build_config s) \<union> {OPEN_NORMALIZE} \<union> {OPEN_STREAMING}
              else OPEN_DSD_FLAG (build_config s) \<union> {OPEN_NORMALIZE}) s1 of
        (Inl f, s2) \<Rightarrow> (Inl f, s2)
      | (Inr wpc, s2) \<Rightarrow> AtScopeExit WavpackCloseFile (wavpack_decode (IsSeekable is') s2))"
  using assms by (simp add: wavpack_streamdecode_def Let_def)

text \<open>
  C2. With a companion the effective seekability is not computed at all. Whenever
  \<^verbatim>\<open>OpenUri\<close> returns a companion stream, \<^verbatim>\<open>wavpack_streamdecode\<close> evaluates
  \<^verbatim>\<open>wvc->is.IsSeekable()\<close> on the still null \<^verbatim>\<open>wvc\<close> and ends there, before the
  library is opened: no conjunction of the two streams' seekability is formed.
\<close>

theorem streamdecode_companion_null_dereference:
  assumes "uri is' = Some u" and "open_uri s u = Inr (Some companion)"
  shows "wavpack_streamdecode is' s = (Inl NullPointerDereference, emit (E_OpenUri u) s)"
  using assms by (simp add: wavpack_streamdecode_def wavpack_open_wvc_def Let_def)

theorem streamdecode_companion_null_dereference_witness:
  "uri http_stream = Some ''http://host/a.wv'' \<and>
   open_uri (example_session\<lparr>open_uri := \<lambda>u. Inr (Some (mem_stream []))\<rparr>) ''http://host/a.wv''
     = Inr (Some (mem_stream [])) \<and>
   IsSeekable http_stream \<and> IsSeekable (mem_stream []) \<and>
   fst (wavpack_streamdecode http_stream (example_session\<lparr>open_uri := \<lambda>u. Inr (Some (mem_stream []))\<rparr>))
     = Inl NullPointerDereference \<and>
   trace (snd (wavpack_streamdecode http_stream
        (example_session\<lparr>open_uri := \<lambda>u. Inr (Some (mem_stream []))\<rparr>)))
     = [E_OpenUri ''http://host/a.wv'']"
proof -
  let ?s = "example_session\<lparr>open_uri := \<lambda>u. Inr (Some (mem_stream []))\<rparr>"
  have a: "uri http_stream = Some ''http://host/a.wv''" by (simp add: http_stream_def)
  have b: "open_uri ?s ''http://host/a.wv'' = Inr (Some (mem_stream []))" by simp
  have c: "IsSeekable http_stream" "IsSeekable (mem_stream [])"
    by (simp_all add: IsSeekable_def http_stream_def mem_stream_def)
  have t: "trace (emit (E_OpenUri ''http://host/a.wv'') ?s) = [E_OpenUri ''http://host/a.wv'']"
    by (simp add: trace_emit example_session_def)
  from streamdecode_companion_null_dereference [OF a b] a b c t show ?thesis by simp
qed

end
